theory Spec2Isabelle
  imports Main "HOL-Library.Word" "HOL-Library.Log_Nat"
begin

unbundle bit_operations_syntax

section \<open>Fan controller for a Clevo-style embedded controller (main.c)\<close>

text \<open>
  The development follows \<^verbatim>\<open>src/main.c\<close>. C \<^verbatim>\<open>int\<close> values are modelled as \<^typ>\<open>int\<close>:
  every value the properties below range over lies in a small interval (percentages,
  temperatures, bytes), far from the 32-bit limits, so no operation wraps. Bytes read from
  or written to the controller are \<^typ>\<open>8 word\<close>; port numbers are \<^typ>\<open>32 word\<close>
  (\<^verbatim>\<open>uint32_t\<close> in the source).
\<close>

subsection \<open>Constants of the source\<close>

abbreviation (input) EC_SC :: "32 word" where "EC_SC \<equiv> 0x66"
abbreviation (input) EC_DATA :: "32 word" where "EC_DATA \<equiv> 0x62"
abbreviation (input) IBF :: "32 word" where "IBF \<equiv> 1"
abbreviation (input) OBF :: "32 word" where "OBF \<equiv> 0"
abbreviation (input) EC_SC_READ_CMD :: "8 word" where "EC_SC_READ_CMD \<equiv> 0x80"

abbreviation (input) EC_REG_CPU_TEMP :: "32 word" where "EC_REG_CPU_TEMP \<equiv> 0x07"
abbreviation (input) EC_REG_GPU_TEMP :: "32 word" where "EC_REG_GPU_TEMP \<equiv> 0xCD"
abbreviation (input) EC_REG_FAN1_DUTY :: "32 word" where "EC_REG_FAN1_DUTY \<equiv> 0xCE"
abbreviation (input) EC_REG_FAN2_DUTY :: "32 word" where "EC_REG_FAN2_DUTY \<equiv> 0xCF"
abbreviation (input) EC_REG_FAN1_RPM_HI :: "32 word" where "EC_REG_FAN1_RPM_HI \<equiv> 0xD0"
abbreviation (input) EC_REG_FAN1_RPM_LO :: "32 word" where "EC_REG_FAN1_RPM_LO \<equiv> 0xD1"
abbreviation (input) EC_REG_FAN2_RPM_HI :: "32 word" where "EC_REG_FAN2_RPM_HI \<equiv> 0xD2"
abbreviation (input) EC_REG_FAN2_RPM_LO :: "32 word" where "EC_REG_FAN2_RPM_LO \<equiv> 0xD3"

abbreviation (input) MIN_FAN_DUTY_PCT :: int where "MIN_FAN_DUTY_PCT \<equiv> 20"
abbreviation (input) AUTO_MIN_TEMP_C :: int where "AUTO_MIN_TEMP_C \<equiv> 40"
abbreviation (input) AUTO_MAX_TEMP_C :: int where "AUTO_MAX_TEMP_C \<equiv> 80"
abbreviation (input) MIN_DEADBAND_C :: int where "MIN_DEADBAND_C \<equiv> 2"
abbreviation (input) STEP_PCT :: int where "STEP_PCT \<equiv> 2"

subsection \<open>The \<^verbatim>\<open>double\<close> arithmetic of the source\<close>

text \<open>
  A \<^verbatim>\<open>double\<close> is modelled by the rational number it denotes. Every arithmetic operation
  computes the exact result and rounds it to the nearest number with a 53-bit significand,
  ties to the even significand (IEEE 754 binary64, default rounding mode, one rounding per
  operation). Exponent limits are left out: the magnitudes that occur in this program are
  0 or lie between \<open>1 / 255\<close> and \<open>2 ^ 32\<close>, where binary64 neither overflows nor
  becomes subnormal.

  \<open>binade x\<close> is the exponent \<open>e\<close> with \<open>2 ^ e \<le> x < 2 ^ (e + 1)\<close>, for \<open>x > 0\<close>.
\<close>

type_synonym double = rat

definition binade :: "rat \<Rightarrow> int" where
  "binade x = (if 1 \<le> x then int (floorlog 2 (nat \<lfloor>x\<rfloor>)) - 1
               else - int (floorlog 2 (nat (\<lceil>1 / x\<rceil> - 1))))"

definition round_half_even :: "rat \<Rightarrow> int" where
  "round_half_even x = (let f = \<lfloor>x\<rfloor>; r = x - of_int f in
     if r < 1 / 2 then f else if 1 / 2 < r then f + 1 else if even f then f else f + 1)"

definition d_round :: "rat \<Rightarrow> double" where
  "d_round x = (if x = 0 then 0 else
     (let u = 2 powi (binade \<bar>x\<bar> - 52)
      in sgn x * of_int (round_half_even (\<bar>x\<bar> / u)) * u))"

definition d_add :: "double \<Rightarrow> double \<Rightarrow> double" where
  "d_add a b = d_round (a + b)"

definition d_sub :: "double \<Rightarrow> double \<Rightarrow> double" where
  "d_sub a b = d_round (a - b)"

definition d_mul :: "double \<Rightarrow> double \<Rightarrow> double" where
  "d_mul a b = d_round (a * b)"

definition d_div :: "double \<Rightarrow> double \<Rightarrow> double" where
  "d_div a b = d_round (a / b)"

text \<open>Conversion \<^verbatim>\<open>int\<close> to \<^verbatim>\<open>double\<close>, and a decimal literal of the source.\<close>

definition d_of_int :: "int \<Rightarrow> double" where
  "d_of_int n = d_round (of_int n)"

definition d_lit :: "rat \<Rightarrow> double" where
  "d_lit x = d_round x"

text \<open>The cast \<^verbatim>\<open>(int)\<close> of a \<^verbatim>\<open>double\<close> truncates towards zero.\<close>

definition int_of_d :: "double \<Rightarrow> int" where
  "int_of_d x = (if 0 \<le> x then \<lfloor>x\<rfloor> else \<lceil>x\<rceil>)"

text \<open>C integer division truncates towards zero.\<close>

definition c_div :: "int \<Rightarrow> int \<Rightarrow> int" where
  "c_div a b = sgn a * sgn b * (\<bar>a\<bar> div \<bar>b\<bar>)"

subsection \<open>Utilities and the duty curve\<close>

definition clamp :: "int \<Rightarrow> int \<Rightarrow> int \<Rightarrow> int" where
  "clamp v lo hi = (if v < lo then lo else if v > hi then hi else v)"

definition target_duty_from_temp_hot :: "int \<Rightarrow> int \<Rightarrow> int" where
  "target_duty_from_temp_hot temp_c prev_pct =
     (if temp_c \<ge> AUTO_MAX_TEMP_C then 100
      else
        (let on_thr = AUTO_MIN_TEMP_C + MIN_DEADBAND_C;
             off_thr = AUTO_MIN_TEMP_C - MIN_DEADBAND_C
         in if prev_pct = 0 \<and> temp_c \<le> on_thr then 0
            else if prev_pct \<noteq> 0 \<and> temp_c < off_thr then 0
            else if temp_c \<le> AUTO_MIN_TEMP_C then MIN_FAN_DUTY_PCT
            else
              (let x0 = d_of_int AUTO_MIN_TEMP_C; y0 = d_of_int MIN_FAN_DUTY_PCT;
                   x1 = d_of_int AUTO_MAX_TEMP_C; y1 = d_lit 100;
                   duty = d_add y0 (d_mul (d_sub y1 y0)
                            (d_div (d_sub (d_of_int temp_c) x0) (d_sub x1 x0)));
                   pct = int_of_d (d_add duty (d_lit (1 / 2)))
               in clamp pct 0 100)))"

definition step_toward :: "int \<Rightarrow> int \<Rightarrow> int" where
  "step_toward last_pct target_pct =
     (let delta = target_pct - last_pct
      in if delta > 0 then last_pct + (if delta < STEP_PCT then delta else STEP_PCT)
         else if delta < 0 then last_pct - (if - delta < STEP_PCT then - delta else STEP_PCT)
         else last_pct)"

definition rpm_from_raw :: "int \<Rightarrow> int \<Rightarrow> int" where
  "rpm_from_raw hi lo =
     (let raw = push_bit 8 hi OR lo
      in if raw > 0 then c_div 2156220 raw else 0)"

text \<open>
  The conversions written inline in \<^verbatim>\<open>fan1_duty_read\<close> / \<^verbatim>\<open>fan2_duty_read\<close> (raw byte
  to percent) and in \<^verbatim>\<open>fan1_duty_write\<close> / \<^verbatim>\<open>fan2_duty_write\<close> (percent to raw byte,
  with the clamp and the cast to \<^verbatim>\<open>uint8_t\<close>).
\<close>

definition duty_pct_of_raw :: "int \<Rightarrow> int" where
  "duty_pct_of_raw raw =
     (let pct = int_of_d (d_add (d_mul (d_div (d_of_int raw) (d_lit 255)) (d_lit 100))
                                (d_lit (1 / 2)))
      in clamp pct 0 100)"

definition duty_raw_of_pct :: "int \<Rightarrow> 8 word" where
  "duty_raw_of_pct pct0 =
     (let pct = clamp pct0 0 100;
          v = int_of_d (d_add (d_mul (d_div (d_of_int pct) (d_lit 100)) (d_lit 255))
                              (d_lit (1 / 2)))
      in word_of_int v)"

subsection \<open>The outside world: port I/O, sysfs, the vendor tool\<close>

text \<open>
  The embedded controller is outside the program, so its answers are a parameter: a
  \<open>device\<close> gives the byte that the \<open>n\<close>-th \<^verbatim>\<open>inb\<close> of the run returns on a port. Any
  behaviour of the hardware, including one that reacts to earlier writes, is one such
  function. The \<open>world\<close> counts the \<^verbatim>\<open>inb\<close> calls made so far and records, in order, every
  \<^verbatim>\<open>outb\<close> and the calls by which a GPU temperature source reaches outside the process
  (\<^verbatim>\<open>opendir\<close> of the hwmon directory, \<^verbatim>\<open>access\<close> and \<^verbatim>\<open>popen\<close> of nvidia-smi).
  \<^verbatim>\<open>usleep\<close> has no effect on values and is left out.
\<close>

type_synonym device = "nat \<Rightarrow> 32 word \<Rightarrow> 8 word"

datatype event =
    Outb "8 word" "32 word"
  | Opendir_hwmon
  | Access_nvidia_smi
  | Popen_nvidia_smi

record world =
  inb_count :: nat
  trace :: "event list"

definition inb :: "device \<Rightarrow> 32 word \<Rightarrow> world \<Rightarrow> 8 word \<times> world" where
  "inb hw port w = (hw (inb_count w) port, w\<lparr>inb_count := Suc (inb_count w)\<rparr>)"

definition emit :: "event \<Rightarrow> world \<Rightarrow> world" where
  "emit e w = w\<lparr>trace := trace w @ [e]\<rparr>"

definition outb :: "8 word \<Rightarrow> 32 word \<Rightarrow> world \<Rightarrow> world" where
  "outb v port w = emit (Outb v port) w"

text \<open>
  A file of the sysfs tree: missing, present but not openable, or its bytes. One entry of
  \<^verbatim>\<open>/sys/class/hwmon\<close> as \<^verbatim>\<open>readdir\<close> returns it, with its \<^verbatim>\<open>name\<close> file and its
  \<^verbatim>\<open>tempN_input\<close> files. The vendor tool: not installed, \<^verbatim>\<open>popen\<close> fails, or the bytes it
  prints.
\<close>

datatype fs_file = Absent | Unreadable | Content string

record hwmon_entry =
  d_name :: string
  name_file :: fs_file
  temp_input :: "nat \<Rightarrow> fs_file"

datatype smi = Smi_missing | Smi_popen_failed | Smi_output string

record sysenv =
  hwmon :: "hwmon_entry list option"
  nvidia_smi :: smi

subsection \<open>EC access\<close>

function ec_io_wait_loop ::
  "device \<Rightarrow> 32 word \<Rightarrow> 32 word \<Rightarrow> int \<Rightarrow> 8 word \<Rightarrow> nat \<Rightarrow> world \<Rightarrow> nat \<times> world" where
  "ec_io_wait_loop hw port flag val data i w =
     (if (drop_bit (unat flag) (uint data) AND 1) \<noteq> val then
        (if i < 100 then
           (let r = inb hw port w
            in ec_io_wait_loop hw port flag val (fst r) (i + 1) (snd r))
         else (i + 1, w))
      else (i, w))"
  by pat_completeness auto
termination
  by (relation "measure (\<lambda>(hw, port, flag, val, data, i, w). 100 - i)") auto

definition ec_io_wait :: "device \<Rightarrow> 32 word \<Rightarrow> 32 word \<Rightarrow> int \<Rightarrow> world \<Rightarrow> int \<times> world" where
  "ec_io_wait hw port flag val w =
     (let (data, w1) = inb hw port w;
          (i, w2) = ec_io_wait_loop hw port flag val data 0 w1
      in (if i \<ge> 100 then - 1 else 0, w2))"

definition ec_io_read :: "device \<Rightarrow> 32 word \<Rightarrow> world \<Rightarrow> 8 word \<times> world" where
  "ec_io_read hw port w =
     (let w1 = snd (ec_io_wait hw EC_SC IBF 0 w);
          w2 = outb EC_SC_READ_CMD EC_SC w1;
          w3 = snd (ec_io_wait hw EC_SC IBF 0 w2);
          w4 = outb (ucast port) EC_DATA w3;
          w5 = snd (ec_io_wait hw EC_SC OBF 1 w4)
      in inb hw EC_DATA w5)"

definition ec_io_do :: "device \<Rightarrow> 32 word \<Rightarrow> 32 word \<Rightarrow> 8 word \<Rightarrow> world \<Rightarrow> int \<times> world" where
  "ec_io_do hw cmd port v w =
     (let (r1, w1) = ec_io_wait hw EC_SC IBF 0 w in
      if r1 \<noteq> 0 then (- 1, w1) else
      let w2 = outb (ucast cmd) EC_SC w1;
          (r2, w3) = ec_io_wait hw EC_SC IBF 0 w2 in
      if r2 \<noteq> 0 then (- 1, w3) else
      let w4 = outb (ucast port) EC_DATA w3;
          (r3, w5) = ec_io_wait hw EC_SC IBF 0 w4 in
      if r3 \<noteq> 0 then (- 1, w5) else
      let w6 = outb v EC_DATA w5
      in ec_io_wait hw EC_SC IBF 0 w6)"

subsection \<open>Fan registers\<close>

definition fan1_duty_read :: "device \<Rightarrow> world \<Rightarrow> int \<times> world" where
  "fan1_duty_read hw w =
     (let (b, w1) = ec_io_read hw EC_REG_FAN1_DUTY w in (duty_pct_of_raw (uint b), w1))"

definition fan2_duty_read :: "device \<Rightarrow> world \<Rightarrow> int \<times> world" where
  "fan2_duty_read hw w =
     (let (b, w1) = ec_io_read hw EC_REG_FAN2_DUTY w in (duty_pct_of_raw (uint b), w1))"

definition fan1_rpm_read :: "device \<Rightarrow> world \<Rightarrow> int \<times> world" where
  "fan1_rpm_read hw w =
     (let (hi, w1) = ec_io_read hw EC_REG_FAN1_RPM_HI w;
          (lo, w2) = ec_io_read hw EC_REG_FAN1_RPM_LO w1
      in (rpm_from_raw (uint hi) (uint lo), w2))"

definition fan2_rpm_read :: "device \<Rightarrow> world \<Rightarrow> int \<times> world" where
  "fan2_rpm_read hw w =
     (let (hi, w1) = ec_io_read hw EC_REG_FAN2_RPM_HI w;
          (lo, w2) = ec_io_read hw EC_REG_FAN2_RPM_LO w1
      in (rpm_from_raw (uint hi) (uint lo), w2))"

definition fan1_duty_write :: "device \<Rightarrow> int \<Rightarrow> world \<Rightarrow> int \<times> world" where
  "fan1_duty_write hw pct w = ec_io_do hw 0x99 0x01 (duty_raw_of_pct pct) w"

definition fan2_duty_write :: "device \<Rightarrow> int \<Rightarrow> world \<Rightarrow> int \<times> world" where
  "fan2_duty_write hw pct w = ec_io_do hw 0x99 0x02 (duty_raw_of_pct pct) w"

subsection \<open>Sensing helpers\<close>

text \<open>
  \<^verbatim>\<open>atoi\<close>: skip white space, take an optional sign, then the decimal digits. Overflow of the
  result is undefined in C and not modelled: the files and the tool hold temperatures.
\<close>

definition isspace :: "char \<Rightarrow> bool" where
  "isspace c = (c = CHR 0x20 \<or> c = CHR 0x09 \<or> c = CHR 0x0A \<or> c = CHR 0x0B
                \<or> c = CHR 0x0C \<or> c = CHR 0x0D)"

definition isdigit :: "char \<Rightarrow> bool" where
  "isdigit c = (48 \<le> (of_char c :: nat) \<and> (of_char c :: nat) \<le> 57)"

fun atoi_digits :: "int \<Rightarrow> string \<Rightarrow> int" where
  "atoi_digits acc [] = acc"
| "atoi_digits acc (c # cs) =
     (if isdigit c then atoi_digits (acc * 10 + (int (of_char c) - 48)) cs else acc)"

definition atoi :: "string \<Rightarrow> int" where
  "atoi s =
     (case dropWhile isspace s of
        [] \<Rightarrow> 0
      | c # cs \<Rightarrow>
          if c = CHR ''-'' then - atoi_digits 0 cs
          else if c = CHR ''+'' then atoi_digits 0 cs
          else atoi_digits 0 (c # cs))"

text \<open>\<^verbatim>\<open>strstr(hay, needle) != NULL\<close> on strings without NUL.\<close>

fun strstr :: "string \<Rightarrow> string \<Rightarrow> bool" where
  "strstr [] needle = (needle = [])"
| "strstr (c # cs) needle = (take (length needle) (c # cs) = needle \<or> strstr cs needle)"

definition path_exists :: "fs_file \<Rightarrow> bool" where
  "path_exists f = (f \<noteq> Absent)"

text \<open>
  \<^verbatim>\<open>read_int_from_file\<close>: \<open>-1\<close> when the file cannot be opened or is empty, otherwise
  \<^verbatim>\<open>atoi\<close> of its first 63 bytes.
\<close>

definition read_int_from_file :: "fs_file \<Rightarrow> int" where
  "read_int_from_file f =
     (case f of
        Content s \<Rightarrow> (let buf = take 63 s in if buf = [] then - 1 else atoi buf)
      | _ \<Rightarrow> - 1)"

text \<open>
  The \<^verbatim>\<open>name\<close> buffer after the read of at most 63 bytes and the cut at the first newline,
  seen as a C string (it ends at the first NUL).
\<close>

definition namebuf_of :: "string \<Rightarrow> string" where
  "namebuf_of s = takeWhile (\<lambda>c. c \<noteq> CHR 0x0A \<and> c \<noteq> CHR 0x00) (take 63 s)"

text \<open>The inner loop \<^verbatim>\<open>for (int i = 1; i <= 10; i++)\<close> over the temperature inputs.\<close>

function temp_inputs_loop :: "hwmon_entry \<Rightarrow> nat \<Rightarrow> int \<Rightarrow> int" where
  "temp_inputs_loop e i best =
     (if i \<le> 10 then
        (if \<not> path_exists (temp_input e i) then temp_inputs_loop e (i + 1) best
         else
           (let milli = read_int_from_file (temp_input e i)
            in if milli > 0 then
                 (let c = c_div milli 1000
                  in temp_inputs_loop e (i + 1) (if c > best then c else best))
               else temp_inputs_loop e (i + 1) best))
      else best)"
  by pat_completeness auto
termination
  by (relation "measure (\<lambda>(e, i, best). 11 - i)") auto

text \<open>
  The body of the outer loop for one directory entry: the new value of \<open>best\<close>. Each
  \<^verbatim>\<open>continue\<close> of the source leaves \<open>best\<close> as it is.
\<close>

definition is_gpu_name :: "string \<Rightarrow> bool" where
  "is_gpu_name namebuf =
     (strstr namebuf ''nvidia'' \<or> strstr namebuf ''amdgpu''
      \<or> strstr namebuf ''i915'' \<or> strstr namebuf ''xe'')"

definition hwmon_entry_body :: "hwmon_entry \<Rightarrow> int \<Rightarrow> int" where
  "hwmon_entry_body de best =
     (if take 5 (d_name de) \<noteq> ''hwmon'' then best
      else
        (case name_file de of
           Content s \<Rightarrow>
             if take 63 s = [] then best
             else if is_gpu_name (namebuf_of s) then temp_inputs_loop de 1 best
             else best
         | _ \<Rightarrow> best))"

text \<open>The outer loop over the directory entries.\<close>

fun hwmon_loop :: "hwmon_entry list \<Rightarrow> int \<Rightarrow> int" where
  "hwmon_loop [] best = best"
| "hwmon_loop (de # des) best = hwmon_loop des (hwmon_entry_body de best)"

definition gpu_temp_sysfs :: "sysenv \<Rightarrow> world \<Rightarrow> int \<times> world" where
  "gpu_temp_sysfs env w =
     (let w1 = emit Opendir_hwmon w
      in case hwmon env of
           None \<Rightarrow> (- 1, w1)
         | Some des \<Rightarrow> (hwmon_loop des (- 1), w1))"

text \<open>
  \<^verbatim>\<open>fgets(buf, 64, p)\<close>: at most 63 bytes, up to and including the first newline; nothing
  read means \<^verbatim>\<open>NULL\<close>.
\<close>

definition fgets64 :: "string \<Rightarrow> string" where
  "fgets64 out =
     (let l = takeWhile (\<lambda>c. c \<noteq> CHR 0x0A) out
      in take 63 (if length l < length out then l @ [CHR 0x0A] else l))"

definition gpu_temp_nvidia_smi :: "sysenv \<Rightarrow> world \<Rightarrow> int \<times> world" where
  "gpu_temp_nvidia_smi env w =
     (let w1 = emit Access_nvidia_smi w
      in case nvidia_smi env of
           Smi_missing \<Rightarrow> (- 1, w1)
         | Smi_popen_failed \<Rightarrow> (- 1, emit Popen_nvidia_smi w1)
         | Smi_output out \<Rightarrow>
             (let w2 = emit Popen_nvidia_smi w1; buf = fgets64 out
              in if buf = [] then (- 1, w2)
                 else (let t = atoi buf in if t > 0 \<and> t < 130 then (t, w2) else (- 1, w2))))"

definition cpu_temp_ec :: "device \<Rightarrow> world \<Rightarrow> int \<times> world" where
  "cpu_temp_ec hw w = (let (b, w1) = ec_io_read hw EC_REG_CPU_TEMP w in (uint b, w1))"

definition gpu_temp :: "sysenv \<Rightarrow> device \<Rightarrow> world \<Rightarrow> int \<times> world" where
  "gpu_temp env hw w =
     (let (t, w1) = gpu_temp_sysfs env w in
      if t > 0 then (t, w1) else
      let (t2, w2) = gpu_temp_nvidia_smi env w1 in
      if t2 > 0 then (t2, w2) else
      let (b, w3) = ec_io_read hw EC_REG_GPU_TEMP w2 in (uint b, w3))"

subsection \<open>Auto mode\<close>

text \<open>
  One pass through the body of the \<^verbatim>\<open>while (!g_stop)\<close> loop of \<^verbatim>\<open>cmd_auto\<close>. The record
  holds what the pass prints (\<open>tc\<close>, \<open>tg\<close>, \<open>th\<close>, \<open>newduty\<close>, \<open>r1\<close>, \<open>r2\<close>) and, for
  stating properties only, the return values of the two duty writes, which the source
  discards (\<open>None\<close> when the pass writes nothing).
\<close>

record pass =
  p_tc :: int
  p_tg :: int
  p_th :: int
  p_target :: int
  p_newduty :: int
  p_write_results :: "(int \<times> int) option"
  p_r1 :: int
  p_r2 :: int

definition cmd_auto_pass :: "sysenv \<Rightarrow> device \<Rightarrow> int \<Rightarrow> world \<Rightarrow> (pass \<times> int) \<times> world" where
  "cmd_auto_pass env hw last_pct w =
     (let (tc, w1) = cpu_temp_ec hw w;
          (tg, w2) = gpu_temp env hw w1;
          th = (if tc > tg then tc else tg);
          target = target_duty_from_temp_hot th last_pct;
          newduty0 = (if th \<ge> AUTO_MAX_TEMP_C then 100 else step_toward last_pct target);
          newduty = clamp newduty0 0 100;
          (res, last_pct', w3) =
            (if newduty \<noteq> last_pct then
               (let (a, wa) = fan1_duty_write hw newduty w2;
                    (b, wb) = fan2_duty_write hw newduty wa
                in (Some (a, b), newduty, wb))
             else (None, last_pct, w2));
          (r1, w4) = fan1_rpm_read hw w3;
          (r2, w5) = fan2_rpm_read hw w4
      in ((\<lparr>p_tc = tc, p_tg = tg, p_th = th, p_target = target, p_newduty = newduty,
             p_write_results = res, p_r1 = r1, p_r2 = r2\<rparr>, last_pct'), w5))"

text \<open>
  The world in which a pass stands once it has read both temperatures, just before the
  \<^verbatim>\<open>if (newduty != last)\<close>.
\<close>

definition after_sensing :: "sysenv \<Rightarrow> device \<Rightarrow> world \<Rightarrow> world" where
  "after_sensing env hw w = snd (gpu_temp env hw (snd (cpu_temp_ec hw w)))"

text \<open>
  \<^verbatim>\<open>cmd_auto\<close>: the start-up, then one pass per element of the list, which gives the sysfs
  and vendor-tool state seen by each pass made before \<^verbatim>\<open>g_stop\<close> is set. The result is the
  final value of \<^verbatim>\<open>last\<close>.
\<close>

fun cmd_auto_loop :: "device \<Rightarrow> sysenv list \<Rightarrow> int \<Rightarrow> world \<Rightarrow> int \<times> world" where
  "cmd_auto_loop hw [] last_pct w = (last_pct, w)"
| "cmd_auto_loop hw (env # envs) last_pct w =
     (let ((p, last_pct'), w') = cmd_auto_pass env hw last_pct w
      in cmd_auto_loop hw envs last_pct' w')"

definition cmd_auto :: "device \<Rightarrow> sysenv list \<Rightarrow> world \<Rightarrow> int \<times> world" where
  "cmd_auto hw envs w =
     (let (d, w1) = fan1_duty_read hw w;
          last_pct = clamp d 0 100;
          w2 = snd (fan2_duty_write hw last_pct w1)
      in cmd_auto_loop hw envs last_pct w2)"

subsection \<open>The four waits of the write sequence\<close>

text \<open>
  The results of the four calls of \<open>ec_io_wait\<close> in \<open>ec_io_do\<close>, each started in the world
  that the steps before it leave behind. A later one is reached only when the earlier ones
  returned 0.
\<close>

definition do_wait1 :: "device \<Rightarrow> world \<Rightarrow> int \<times> world" where
  "do_wait1 hw w = ec_io_wait hw EC_SC IBF 0 w"

definition do_wait2 :: "device \<Rightarrow> 32 word \<Rightarrow> world \<Rightarrow> int \<times> world" where
  "do_wait2 hw cmd w = ec_io_wait hw EC_SC IBF 0 (outb (ucast cmd) EC_SC (snd (do_wait1 hw w)))"

definition do_wait3 :: "device \<Rightarrow> 32 word \<Rightarrow> 32 word \<Rightarrow> world \<Rightarrow> int \<times> world" where
  "do_wait3 hw cmd port w =
     ec_io_wait hw EC_SC IBF 0 (outb (ucast port) EC_DATA (snd (do_wait2 hw cmd w)))"

definition do_wait4 :: "device \<Rightarrow> 32 word \<Rightarrow> 32 word \<Rightarrow> 8 word \<Rightarrow> world \<Rightarrow> int \<times> world" where
  "do_wait4 hw cmd port v w =
     ec_io_wait hw EC_SC IBF 0 (outb v EC_DATA (snd (do_wait3 hw cmd port w)))"

subsection \<open>The formulas of the specification\<close>

text \<open>
  These three definitions follow the words of the specification, in exact arithmetic, to be
  compared with the functions above: the linear part of the duty curve,
  \<open>round (20 + (100 - 20) * (hot - 40) / (80 - 40))\<close> clamped to \<open>[0, 100]\<close>, and the two
  duty conversions \<open>raw = round (pct / 100 * 255)\<close> and \<open>pct = round (raw / 255 * 100)\<close>,
  the latter clamped to \<open>[0, 100]\<close>. \<open>round\<close> is rounding to the nearest integer, a half
  going up.
\<close>

definition spec_linear_duty :: "int \<Rightarrow> int" where
  "spec_linear_duty hot =
     clamp (round (20 + (100 - 20) * (of_int hot - 40) / (80 - 40) :: rat)) 0 100"

definition spec_PercentToRaw :: "int \<Rightarrow> int" where
  "spec_PercentToRaw pct = round (of_int pct / 100 * 255 :: rat)"

definition spec_RawToPercent :: "int \<Rightarrow> int" where
  "spec_RawToPercent raw = clamp (round (of_int raw / 255 * 100 :: rat)) 0 100"

subsection \<open>Example inputs\<close>

text \<open>
  A controller whose status port shows an empty input buffer and a full output buffer for
  the first \<open>k\<close> port reads of the run and a full input buffer from then on, and whose
  data port always holds \<open>d\<close>. The world at program start. A machine without hwmon
  directory and without the vendor tool. A machine with one \<^verbatim>\<open>amdgpu\<close> monitor at 55000
  millidegrees, on which the vendor tool would print 70.
\<close>

definition dev :: "nat \<Rightarrow> 8 word \<Rightarrow> device" where
  "dev k d = (\<lambda>n port. if port = EC_SC then (if n < k then 0x01 else 0x02) else d)"

definition w0 :: world where
  "w0 = \<lparr>inb_count = 0, trace = []\<rparr>"

definition env_bare :: sysenv where
  "env_bare = \<lparr>hwmon = None, nvidia_smi = Smi_missing\<rparr>"

definition env_amdgpu :: sysenv where
  "env_amdgpu =
     \<lparr>hwmon = Some
        [\<lparr>d_name = ''.'', name_file = Absent, temp_input = (\<lambda>i. Absent)\<rparr>,
         \<lparr>d_name = ''hwmon0'', name_file = Content (''amdgpu'' @ [CHR 0x0A]),
          temp_input = (\<lambda>i. if i = 1 then Content (''55000'' @ [CHR 0x0A]) else Absent)\<rparr>],
      nvidia_smi = Smi_output ''70''\<rparr>"

section \<open>Properties\<close>

subsection \<open>Rounding to \<^verbatim>\<open>double\<close>\<close>

text \<open>
  \<open>binade\<close> is the binary exponent, rounding moves a number by at most half a unit in the
  last place, and integers below \<open>2 ^ 53\<close> are not moved at all.
\<close>

lemma binade_bounds:
  assumes "0 < x"
  shows "2 powi binade x \<le> x" and "x < 2 powi (binade x + 1)"
proof -
  show "2 powi binade x \<le> x"
  proof (cases "1 \<le> x")
    case True
    define n where "n = nat \<lfloor>x\<rfloor>"
    have n1: "0 < n" using True by (simp add: n_def)
    have b: "binade x = int (floorlog 2 n) - 1" using True by (simp add: binade_def n_def)
    have fl: "0 < floorlog 2 n" using n1 by (simp add: floorlog_def)
    have "2 ^ (floorlog 2 n - 1) \<le> n" using floorlog_bounds[of n 2] n1 by simp
    then have "(2::rat) ^ (floorlog 2 n - 1) \<le> of_nat n"
      by (metis of_nat_le_iff of_nat_numeral of_nat_power)
    also have "(of_nat n :: rat) = of_int \<lfloor>x\<rfloor>" using True by (simp add: n_def)
    also have "\<dots> \<le> x" by simp
    finally have "(2::rat) ^ (floorlog 2 n - 1) \<le> x" .
    moreover have "binade x = int (floorlog 2 n - 1)" using b fl by simp
    ultimately show ?thesis by simp
  next
    case False
    define c where "c = \<lceil>1 / x\<rceil>"
    define m where "m = nat (c - 1)"
    have x1: "x < 1" using False by simp
    have "1 < 1 / x" using assms x1 by simp
    then have c2: "2 \<le> c" unfolding c_def by (simp add: le_ceiling_iff)
    have m1: "0 < m" using c2 by (simp add: m_def)
    have mc: "int m + 1 = c" using c2 by (simp add: m_def)
    have b: "binade x = - int (floorlog 2 m)" using False by (simp add: binade_def m_def c_def)
    have "m < 2 ^ floorlog 2 m" using floorlog_bounds[of m 2] m1 by simp
    then have "int m + 1 \<le> 2 ^ floorlog 2 m"
      by (metis Suc_leI of_nat_Suc of_nat_le_iff of_nat_numeral of_nat_power add.commute)
    with mc have "c \<le> 2 ^ floorlog 2 m" by linarith
    then have "\<lceil>1 / x\<rceil> \<le> 2 ^ floorlog 2 m" unfolding c_def .
    then have "1 / x \<le> 2 ^ floorlog 2 m"
      by (metis ceiling_le_iff of_int_numeral of_int_power)
    then have "1 \<le> 2 ^ floorlog 2 m * x" using assms by (simp add: field_simps)
    then have "1 / 2 ^ floorlog 2 m \<le> x" by (simp add: field_simps)
    then show ?thesis using b by (simp add: power_int_minus field_simps)
  qed
  show "x < 2 powi (binade x + 1)"
  proof (cases "1 \<le> x")
    case True
    define n where "n = nat \<lfloor>x\<rfloor>"
    have n1: "0 < n" using True by (simp add: n_def)
    have b: "binade x + 1 = int (floorlog 2 n)" using True by (simp add: binade_def n_def)
    have "n < 2 ^ floorlog 2 n" using floorlog_bounds[of n 2] n1 by simp
    then have "int n + 1 \<le> 2 ^ floorlog 2 n"
      by (metis Suc_leI of_nat_Suc of_nat_le_iff of_nat_numeral of_nat_power add.commute)
    moreover have "int n = \<lfloor>x\<rfloor>" using True by (simp add: n_def)
    ultimately have "\<lfloor>x\<rfloor> + 1 \<le> 2 ^ floorlog 2 n" by simp
    then have "\<lfloor>x\<rfloor> < 2 ^ floorlog 2 n" by simp
    then have "x < 2 ^ floorlog 2 n"
      by (metis floor_less_iff of_int_numeral of_int_power)
    then show ?thesis using b by simp
  next
    case False
    define c where "c = \<lceil>1 / x\<rceil>"
    define m where "m = nat (c - 1)"
    have x1: "x < 1" using False by simp
    have "1 < 1 / x" using assms x1 by simp
    then have c2: "2 \<le> c" unfolding c_def by (simp add: le_ceiling_iff)
    have m1: "0 < m" using c2 by (simp add: m_def)
    have mc: "int m + 1 = c" using c2 by (simp add: m_def)
    have fl: "0 < floorlog 2 m" using m1 by (simp add: floorlog_def)
    have b: "binade x + 1 = - int (floorlog 2 m - 1)" using False fl by (simp add: binade_def m_def c_def)
    have "2 ^ (floorlog 2 m - 1) \<le> m" using floorlog_bounds[of m 2] m1 by simp
    then have "(2::int) ^ (floorlog 2 m - 1) \<le> int m"
      by (metis of_nat_le_iff of_nat_numeral of_nat_power)
    with mc have "(2::int) ^ (floorlog 2 m - 1) < c" by linarith
    then have "(2::int) ^ (floorlog 2 m - 1) < \<lceil>1 / x\<rceil>" unfolding c_def .
    then have "(2::rat) ^ (floorlog 2 m - 1) < 1 / x"
      by (metis less_ceiling_iff of_int_numeral of_int_power)
    then have "2 ^ (floorlog 2 m - 1) * x < 1" using assms by (simp add: field_simps)
    then have "x < 1 / 2 ^ (floorlog 2 m - 1)" by (simp add: field_simps)
    then show ?thesis unfolding b by (simp add: power_int_minus field_simps)
  qed
qed

lemma round_half_even_err: "\<bar>of_int (round_half_even y) - y\<bar> \<le> 1 / 2"
proof -
  have "of_int \<lfloor>y\<rfloor> \<le> y" "y < of_int \<lfloor>y\<rfloor> + 1" by linarith+
  then show ?thesis
    by (auto simp: round_half_even_def Let_def abs_le_iff)
qed


lemma d_round_err: "\<bar>d_round x - x\<bar> \<le> \<bar>x\<bar> / 2 ^ 53"
proof (cases "x = 0")
  case True
  then show ?thesis by (simp add: d_round_def)
next
  case False
  define a where "a = \<bar>x\<bar>"
  define u :: rat where "u = 2 powi (binade a - 52)"
  define k where "k = round_half_even (a / u)"
  have a0: "0 < a" using False by (simp add: a_def)
  have u0: "0 < u" by (simp add: u_def)
  have "u = 2 powi binade a / 2 powi 52" unfolding u_def by (rule power_int_diff) simp
  then have ue: "u * 2 ^ 52 = 2 powi binade a" by simp
  have ua: "u * 2 ^ 52 \<le> a" using binade_bounds(1)[OF a0] ue by simp
  have dr: "d_round x = sgn x * (of_int k * u)"
    using False by (simp add: d_round_def Let_def a_def u_def k_def)
  have xa: "x = sgn x * a" unfolding a_def by (rule mult_sgn_abs [symmetric])
  have "d_round x - x = sgn x * (of_int k * u - a)"
    using dr xa by (metis right_diff_distrib)
  then have "\<bar>d_round x - x\<bar> = \<bar>of_int k * u - a\<bar>"
    using False by (simp add: abs_mult abs_sgn_eq)
  also have "of_int k * u - a = u * (of_int k - a / u)" using u0 by (simp add: field_simps)
  also have "\<bar>\<dots>\<bar> = u * \<bar>of_int k - a / u\<bar>" using u0 by (simp add: abs_mult)
  also have "\<dots> \<le> u * (1 / 2)"
    using round_half_even_err[of "a / u"] u0 unfolding k_def by (intro mult_left_mono) auto
  also have "\<dots> \<le> a / 2 ^ 53" using ua by (simp add: field_simps)
  finally show ?thesis by (simp add: a_def)
qed

lemma d_round_close:
  assumes "\<bar>x\<bar> \<le> 1024"
  shows "\<bar>d_round x - x\<bar> \<le> 1 / 2 ^ 43"
proof -
  have "\<bar>x\<bar> / 2 ^ 53 \<le> 1024 / 2 ^ 53" using assms by (simp add: divide_right_mono)
  also have "\<dots> = 1 / 2 ^ 43" by simp
  finally show ?thesis using d_round_err[of x] by linarith
qed

lemma round_half_even_of_int: "round_half_even (of_int k) = k"
  by (simp add: round_half_even_def)

lemma d_round_of_int:
  assumes "\<bar>n\<bar> < 2 ^ 53"
  shows "d_round (of_int n) = of_int n"
proof (cases "n = 0")
  case True
  then show ?thesis by (simp add: d_round_def)
next
  case False
  define a :: rat where "a = \<bar>of_int n\<bar>"
  define e where "e = binade a"
  have a0: "0 < a" using False by (simp add: a_def)
  have an: "a = of_int \<bar>n\<bar>" by (simp add: a_def)
  have "a < 2 ^ 53" unfolding an using assms
    by (metis of_int_less_iff of_int_numeral of_int_power)
  then have "(2::rat) powi e < 2 powi 53" using binade_bounds(1)[OF a0] by (simp add: e_def)
  then have "e < 53" by (rule power_int_le_imp_less_exp [rotated]) simp_all
  then have "0 \<le> 52 - e" by simp
  then obtain j where j: "52 - e = int j" by (rule nonneg_int_cases)
  define u :: rat where "u = 2 powi (e - 52)"
  have "e - 52 = - int j" using j by simp
  then have "u = 2 powi (- int j)" by (simp only: u_def)
  then have uj: "u = 1 / 2 ^ j" by (simp add: power_int_minus field_simps)
  have "a / u = of_int (\<bar>n\<bar> * 2 ^ j)" by (simp add: uj an)
  then have "round_half_even (a / u) = \<bar>n\<bar> * 2 ^ j" by (simp only: round_half_even_of_int)
  then have "of_int (round_half_even (a / u)) * u = a" by (simp add: uj an)
  then have "d_round (of_int n) = sgn (of_int n) * a"
    using False by (simp add: d_round_def Let_def a_def[symmetric] e_def[symmetric] u_def[symmetric] mult.assoc)
  then show ?thesis unfolding a_def by (simp only: mult_sgn_abs)
qed

subsection \<open>The linear part of the duty curve\<close>

text \<open>
  Between 40 and 80 degrees the rounded computation yields \<open>2 * t - 60\<close>: the four
  roundings move the exact value \<open>2 * t - 60 + 1 / 2\<close> by far less than one half.
\<close>

lemma d_round_near:
  assumes "- 1024 \<le> x" "x \<le> 1024"
  shows "x - 1 / 8796093022208 \<le> d_round x" and "d_round x \<le> x + 1 / 8796093022208"
proof -
  have "\<bar>x\<bar> \<le> 1024" using assms by (simp add: abs_le_iff)
  then have "\<bar>d_round x - x\<bar> \<le> 1 / 2 ^ 43" by (rule d_round_close)
  then have "\<bar>d_round x - x\<bar> \<le> 1 / 8796093022208" by simp
  then show "x - 1 / 8796093022208 \<le> d_round x" and "d_round x \<le> x + 1 / 8796093022208"
    by linarith+
qed

lemma d_lits:
  "d_of_int 40 = 40" "d_of_int 20 = 20" "d_of_int 80 = 80" "d_lit 100 = 100"
  "d_lit 255 = 255" "d_lit (1 / 2) = 1 / 2" "d_sub 100 20 = 80" "d_sub 80 40 = 40"
  by (code_simp+)

lemma d_of_int_small: "\<bar>n\<bar> \<le> 1024 \<Longrightarrow> d_of_int n = of_int n"
  unfolding d_of_int_def by (rule d_round_of_int) simp

lemma floor_half: 
  fixes r :: rat
  assumes "of_int k < r" "r < of_int k + 1"
  shows "\<lfloor>r\<rfloor> = k"
  using assms by (intro floor_unique) simp_all

lemma target_linear:
  assumes "40 < t" "t < 80" "\<not> (prev = 0 \<and> t \<le> 42)"
  shows "target_duty_from_temp_hot t prev = 2 * t - 60"
proof -
  define x :: rat where "x = of_int (t - 40)"
  define q where "q = d_round (x / 40)"
  define p where "p = d_round (80 * q)"
  define s where "s = d_round (20 + p)"
  define r where "r = d_round (s + 1 / 2)"
  have x: "0 < x" "x < 40" using assms by (simp_all add: x_def)
  have dt: "d_sub (d_of_int t) 40 = x"
  proof -
    have "d_of_int t = of_int t" using assms by (intro d_of_int_small) simp
    then have "d_sub (d_of_int t) 40 = d_round (of_int (t - 40))" by (simp add: d_sub_def)
    also have "\<dots> = of_int (t - 40)" using assms by (intro d_round_of_int) simp
    finally show ?thesis by (simp add: x_def)
  qed
  have q: "x / 40 - 1 / 8796093022208 \<le> q" "q \<le> x / 40 + 1 / 8796093022208"
    unfolding q_def using x by (intro d_round_near; linarith)+
  have p: "80 * q - 1 / 8796093022208 \<le> p" "p \<le> 80 * q + 1 / 8796093022208"
    unfolding p_def using x q by (intro d_round_near; linarith)+
  have s: "20 + p - 1 / 8796093022208 \<le> s" "s \<le> 20 + p + 1 / 8796093022208"
    unfolding s_def using x q p by (intro d_round_near; linarith)+
  have r: "s + 1 / 2 - 1 / 8796093022208 \<le> r" "r \<le> s + 1 / 2 + 1 / 8796093022208"
    unfolding r_def using x q p s by (intro d_round_near; linarith)+
  have k: "(of_int (2 * t - 60) :: rat) = 2 * x + 20" by (simp add: x_def)
  have "of_int (2 * t - 60) < r" "r < of_int (2 * t - 60) + 1"
    unfolding k using r s p q by linarith+
  then have fl: "\<lfloor>r\<rfloor> = 2 * t - 60" by (rule floor_half)
  have "0 \<le> r" using r s p q x by linarith
  then have "int_of_d r = 2 * t - 60" using fl by (simp add: int_of_d_def)
  moreover have "target_duty_from_temp_hot t prev = clamp (int_of_d r) 0 100"
    using assms
    by (auto simp add: target_duty_from_temp_hot_def Let_def d_lits dt
        d_add_def d_mul_def d_div_def r_def s_def p_def q_def)
  ultimately show ?thesis using assms by (simp add: clamp_def)
qed

subsection \<open>Integer arithmetic of the duty conversions\<close>

lemma halfway_cases:
  fixes p :: int
  assumes "0 \<le> p" "p \<le> 100" "(51 * p + 10) mod 20 = 0"
  shows "p = 10 \<or> p = 30 \<or> p = 50 \<or> p = 70 \<or> p = 90"
proof -
  from assms(3) obtain d where d: "51 * p + 10 = 20 * d" by (auto simp: mod_eq_0_iff_dvd)
  define k where "k = 11 * d - 28 * p - 6"
  have "20 * k = 11 * (20 * d) - 560 * p - 120" by (simp add: k_def)
  also have "\<dots> = 11 * (51 * p + 10) - 560 * p - 120" by (simp only: d)
  finally have p: "p = 20 * k + 10" by simp
  have "0 \<le> k" "k \<le> 4" using assms(1,2) p by linarith+
  then have "k = 0 \<or> k = 1 \<or> k = 2 \<or> k = 3 \<or> k = 4" by linarith
  then show ?thesis using p by auto
qed

lemma odd_not_102: "(40 * n + 51) mod 102 \<noteq> (0::int)"
proof
  assume "(40 * n + 51) mod 102 = 0"
  then obtain d where "40 * n + 51 = 102 * d" by (auto simp: mod_eq_0_iff_dvd)
  then have "40 * n + 51 = 2 * (51 * d)" by simp
  then have "even (40 * n + 51)" by (metis dvd_triv_left)
  then show False by simp
qed

lemma div_eq_between:
  fixes a b q :: int
  assumes "b * q \<le> a" "a < b * q + b"
  shows "a div b = q"
proof (rule int_div_pos_eq)
  show "a = b * q + (a - b * q)" by simp
  show "0 \<le> a - b * q" using assms by simp
  show "a - b * q < b" using assms by simp
qed

lemma div_between:
  fixes a b :: int
  assumes "0 < b"
  shows "b * (a div b) \<le> a" and "a < b * (a div b) + b"
proof -
  have "a = b * (a div b) + a mod b" by simp
  moreover have "0 \<le> a mod b" "a mod b < b" using assms by simp_all
  ultimately show "b * (a div b) \<le> a" and "a < b * (a div b) + b" by linarith+
qed

lemma roundtrip_arith:
  fixes p :: int
  shows "(40 * ((51 * p + 10) div 20) + 51) div 102 = p"
proof -
  define w where "w = (51 * p + 10) div 20"
  have "20 * w \<le> 51 * p + 10" "51 * p + 10 < 20 * w + 20"
    unfolding w_def by (rule div_between, simp)+
  then have "102 * p \<le> 40 * w + 51" "40 * w + 51 < 102 * p + 102" by linarith+
  then show ?thesis unfolding w_def[symmetric] by (rule div_eq_between)
qed

lemma raw_range:
  fixes p :: int
  assumes "0 \<le> p" "p \<le> 100"
  shows "0 \<le> (51 * p + 10) div 20" and "(51 * p + 10) div 20 \<le> 255"
proof -
  define w where "w = (51 * p + 10) div 20"
  have "20 * w \<le> 51 * p + 10" "51 * p + 10 < 20 * w + 20"
    unfolding w_def by (rule div_between, simp)+
  then show "0 \<le> (51 * p + 10) div 20" and "(51 * p + 10) div 20 \<le> 255"
    unfolding w_def[symmetric] using assms by linarith+
qed

lemma pct_range:
  fixes n :: int
  assumes "0 \<le> n" "n \<le> 255"
  shows "0 \<le> (40 * n + 51) div 102" and "(40 * n + 51) div 102 \<le> 100"
proof -
  define w where "w = (40 * n + 51) div 102"
  have "102 * w \<le> 40 * n + 51" "40 * n + 51 < 102 * w + 102"
    unfolding w_def by (rule div_between, simp)+
  then show "0 \<le> (40 * n + 51) div 102" and "(40 * n + 51) div 102 \<le> 100"
    unfolding w_def[symmetric] using assms by linarith+
qed

subsection \<open>The duty conversions in closed form\<close>

text \<open>
  The value written for a percentage \<open>p\<close> is \<open>(51 * p + 10) div 20\<close> and the percentage
  read for a raw byte \<open>n\<close> is \<open>(40 * n + 51) div 102\<close>. For the write, the exact value
  \<open>255 * p / 100 + 1 / 2\<close> is an integer at \<open>p = 10, 30, 50, 70, 90\<close>; there the roundings
  are evaluated. Everywhere else the exact value is at least \<open>1 / 20\<close> away from an integer.
\<close>

lemma floor_near:
  fixes r :: rat
  assumes b: "0 < b" and nz: "a mod b \<noteq> 0"
    and lo: "of_int a / of_int b - 1 / of_int b < r"
    and hi: "r < of_int a / of_int b + 1 / of_int b"
  shows "\<lfloor>r\<rfloor> = a div b"
proof (rule floor_unique)
  define d where "d = a div b"
  define m where "m = a mod b"
  have a: "a = b * d + m" by (simp add: d_def m_def)
  have "0 \<le> m" "m < b" using b by (simp_all add: m_def)
  moreover have "m \<noteq> 0" using nz by (simp add: m_def)
  ultimately have m: "1 \<le> m" "m + 1 \<le> b" by linarith+
  have b': "0 < (of_int b :: rat)" using b by simp
  have e: "of_int a / of_int b = (of_int d :: rat) + of_int m / of_int b"
    using b' by (simp add: a field_simps)
  have "(of_int 1 :: rat) \<le> of_int m" using m(1) by (simp only: of_int_le_iff)
  then have m1: "1 / of_int b \<le> (of_int m :: rat) / of_int b"
    using b' by (simp add: divide_right_mono)
  have "(of_int (m + 1) :: rat) \<le> of_int b" using m(2) by (simp only: of_int_le_iff)
  then have "(of_int m :: rat) + 1 \<le> of_int b" by simp
  then have "((of_int m :: rat) + 1) / of_int b \<le> 1" using b' by simp
  then have m2: "(of_int m :: rat) / of_int b + 1 / of_int b \<le> 1"
    by (simp add: add_divide_distrib)
  show "of_int (a div b) \<le> r" using lo e m1 unfolding d_def by linarith
  show "r < of_int (a div b) + 1" using hi e m2 unfolding d_def by linarith
qed



lemma raw_halfway:
  "int_of_d (d_add (d_mul (d_div 10 100) 255) (1 / 2)) = 26"
  "int_of_d (d_add (d_mul (d_div 30 100) 255) (1 / 2)) = 77"
  "int_of_d (d_add (d_mul (d_div 50 100) 255) (1 / 2)) = 128"
  "int_of_d (d_add (d_mul (d_div 70 100) 255) (1 / 2)) = 179"
  "int_of_d (d_add (d_mul (d_div 90 100) 255) (1 / 2)) = 230"
  by (code_simp+)

lemma raw_of_pct_chain:
  assumes "0 \<le> p" "p \<le> 100"
  shows "int_of_d (d_add (d_mul (d_div (of_int p) 100) 255) (1 / 2)) = (51 * p + 10) div 20"
proof (cases "(51 * p + 10) mod 20 = 0")
  case True
  then have "p = 10 \<or> p = 30 \<or> p = 50 \<or> p = 70 \<or> p = 90"
    using assms by (intro halfway_cases)
  then show ?thesis using raw_halfway by (elim disjE) simp_all
next
  case nz: False
  define x :: rat where "x = of_int p"
  define q where "q = d_round (x / 100)"
  define m where "m = d_round (q * 255)"
  define r where "r = d_round (m + 1 / 2)"
  have x: "0 \<le> x" "x \<le> 100" using assms by (simp_all add: x_def)
  have q: "x / 100 - 1 / 8796093022208 \<le> q" "q \<le> x / 100 + 1 / 8796093022208"
    unfolding q_def using x by (intro d_round_near; linarith)+
  have m: "q * 255 - 1 / 8796093022208 \<le> m" "m \<le> q * 255 + 1 / 8796093022208"
    unfolding m_def using x q by (intro d_round_near; linarith)+
  have r: "m + 1 / 2 - 1 / 8796093022208 \<le> r" "r \<le> m + 1 / 2 + 1 / 8796093022208"
    unfolding r_def using x q m by (intro d_round_near; linarith)+
  have k: "of_int (51 * p + 10) / of_int 20 = x * 255 / 100 + 1 / 2" by (simp add: x_def)
  have "\<lfloor>r\<rfloor> = (51 * p + 10) div 20"
  proof (rule floor_near [OF _ nz])
    show "(0::int) < 20" by simp
    show "of_int (51 * p + 10) / of_int 20 - 1 / of_int 20 < r"
      unfolding k using r m q by simp
    show "r < of_int (51 * p + 10) / of_int 20 + 1 / of_int 20"
      unfolding k using r m q by simp
  qed
  moreover have "0 \<le> r" using r m q x by linarith
  ultimately have "int_of_d r = (51 * p + 10) div 20" by (simp add: int_of_d_def)
  then show ?thesis
    by (simp add: d_add_def d_mul_def d_div_def r_def m_def q_def x_def)
qed

lemma pct_of_raw_chain:
  assumes "0 \<le> n" "n \<le> 255"
  shows "int_of_d (d_add (d_mul (d_div (of_int n) 255) 100) (1 / 2)) = (40 * n + 51) div 102"
proof -
  define x :: rat where "x = of_int n"
  define q where "q = d_round (x / 255)"
  define m where "m = d_round (q * 100)"
  define r where "r = d_round (m + 1 / 2)"
  have x: "0 \<le> x" "x \<le> 255" using assms by (simp_all add: x_def)
  have q: "x / 255 - 1 / 8796093022208 \<le> q" "q \<le> x / 255 + 1 / 8796093022208"
    unfolding q_def using x by (intro d_round_near; linarith)+
  have m: "q * 100 - 1 / 8796093022208 \<le> m" "m \<le> q * 100 + 1 / 8796093022208"
    unfolding m_def using x q by (intro d_round_near; linarith)+
  have r: "m + 1 / 2 - 1 / 8796093022208 \<le> r" "r \<le> m + 1 / 2 + 1 / 8796093022208"
    unfolding r_def using x q m by (intro d_round_near; linarith)+
  have k: "of_int (40 * n + 51) / of_int 102 = x * 100 / 255 + 1 / 2" by (simp add: x_def)
  have "\<lfloor>r\<rfloor> = (40 * n + 51) div 102"
  proof (rule floor_near [OF _ odd_not_102])
    show "(0::int) < 102" by simp
    show "of_int (40 * n + 51) / of_int 102 - 1 / of_int 102 < r"
      unfolding k using r m q by simp
    show "r < of_int (40 * n + 51) / of_int 102 + 1 / of_int 102"
      unfolding k using r m q by simp
  qed
  moreover have "0 \<le> r" using r m q x by linarith
  ultimately have "int_of_d r = (40 * n + 51) div 102" by (simp add: int_of_d_def)
  then show ?thesis
    by (simp add: d_add_def d_mul_def d_div_def r_def m_def q_def x_def)
qed

lemma duty_raw_of_pct_eq:
  assumes "0 \<le> p" "p \<le> 100"
  shows "uint (duty_raw_of_pct p) = (51 * p + 10) div 20"
proof -
  have "duty_raw_of_pct p = word_of_int ((51 * p + 10) div 20)"
    using assms
    by (simp add: duty_raw_of_pct_def clamp_def Let_def d_lits d_of_int_small raw_of_pct_chain)
  moreover have "0 \<le> (51 * p + 10) div 20" "(51 * p + 10) div 20 < 2 ^ 8"
    using raw_range[OF assms] by simp_all
  ultimately show ?thesis by (simp add: uint_word_of_int take_bit_int_eq_self)
qed

lemma duty_pct_of_raw_eq:
  assumes "0 \<le> n" "n \<le> 255"
  shows "duty_pct_of_raw n = (40 * n + 51) div 102"
  using assms pct_range[OF assms]
  by (simp add: duty_pct_of_raw_def clamp_def Let_def d_lits d_of_int_small pct_of_raw_chain)

subsection \<open>Ramp limiting\<close>

text \<open>
  Claim C4. For \<open>last_pct\<close> and \<open>target_pct\<close> in \<open>[0, 100]\<close>, \<open>step_toward\<close> moves
  \<open>last_pct\<close> towards \<open>target_pct\<close> by at most 2 points and never past it: it lands on the
  target when the target is within 2 points and moves exactly 2 points otherwise. In
  particular \<open>step_toward 20 100 = 22\<close> and \<open>step_toward 20 21 = 21\<close>.
\<close>

theorem step_toward_ramp:
  assumes "0 \<le> last_pct" "last_pct \<le> 100" "0 \<le> target_pct" "target_pct \<le> 100"
  shows "\<bar>step_toward last_pct target_pct - last_pct\<bar> \<le> 2
    \<and> (last_pct \<le> target_pct \<longrightarrow>
          last_pct \<le> step_toward last_pct target_pct
          \<and> step_toward last_pct target_pct \<le> target_pct)
    \<and> (target_pct \<le> last_pct \<longrightarrow>
          target_pct \<le> step_toward last_pct target_pct
          \<and> step_toward last_pct target_pct \<le> last_pct)
    \<and> step_toward last_pct target_pct =
          (if \<bar>target_pct - last_pct\<bar> \<le> 2 then target_pct
           else if last_pct < target_pct then last_pct + 2 else last_pct - 2)
    \<and> step_toward 20 100 = 22 \<and> step_toward 20 21 = 21"
  by (auto simp: step_toward_def Let_def)

theorem step_toward_ramp_witness:
  "(0::int) \<le> 20 \<and> (20::int) \<le> 100 \<and> (0::int) \<le> 100 \<and> (100::int) \<le> 100
   \<and> \<bar>step_toward 20 100 - 20\<bar> \<le> 2 \<and> step_toward 20 100 = 22 \<and> step_toward 20 21 = 21"
  using step_toward_ramp [of 20 100] by simp

subsection \<open>RPM decoding\<close>

lemma raw16_eq:
  fixes hi lo :: int
  assumes "0 \<le> lo" "lo \<le> 255"
  shows "push_bit 8 hi OR lo = 256 * hi + lo"
proof -
  have "take_bit 8 lo = lo" using assms by (simp add: take_bit_int_eq_self)
  then have "push_bit 8 hi OR lo = concat_bit 8 lo hi"
    by (simp add: concat_bit_def or.commute)
  also have "\<dots> = take_bit 8 lo + push_bit 8 hi" by (rule concat_bit_eq)
  finally show ?thesis using \<open>take_bit 8 lo = lo\<close> by (simp add: push_bit_eq_mult)
qed

text \<open>
  Claim C7. For bytes \<open>hi\<close> and \<open>lo\<close> in \<open>[0, 255]\<close>, the raw counter
  \<open>(hi << 8) | lo\<close> is \<open>256 * hi + lo\<close>; \<open>rpm_from_raw hi lo\<close> is \<open>2156220\<close> divided by it
  when it is positive and 0 when it is 0, so \<open>rpm_from_raw 0 0 = 0\<close>, and the result is
  never negative.
\<close>

theorem rpm_from_raw_decoding:
  assumes "0 \<le> hi" "hi \<le> 255" "0 \<le> lo" "lo \<le> 255"
  shows "push_bit 8 hi OR lo = 256 * hi + lo
    \<and> (0 < push_bit 8 hi OR lo \<longrightarrow> rpm_from_raw hi lo = 2156220 div (push_bit 8 hi OR lo))
    \<and> (push_bit 8 hi OR lo = 0 \<longrightarrow> rpm_from_raw hi lo = 0)
    \<and> rpm_from_raw 0 0 = 0
    \<and> 0 \<le> rpm_from_raw hi lo"
proof -
  have raw: "push_bit 8 hi OR lo = 256 * hi + lo" using assms by (intro raw16_eq)
  have pos: "0 < r \<Longrightarrow> c_div 2156220 r = 2156220 div r" for r
    by (simp add: c_div_def)
  have nn: "0 < r \<Longrightarrow> 0 \<le> 2156220 div r" for r :: int
    by (simp add: pos_imp_zdiv_nonneg_iff)
  show ?thesis
    using raw pos nn by (auto simp: rpm_from_raw_def Let_def)
qed

theorem rpm_from_raw_decoding_witness:
  "(0::int) \<le> 3 \<and> (3::int) \<le> 255 \<and> (0::int) \<le> 232 \<and> (232::int) \<le> 255
   \<and> push_bit 8 (3::int) OR 232 = 1000 \<and> rpm_from_raw 3 232 = 2156
   \<and> rpm_from_raw 0 0 = 0"
  using rpm_from_raw_decoding [of 3 232] by simp

subsection \<open>The handshake wait\<close>

text \<open>
  \<open>ec_io_wait\<close> only reads: it leaves the trace of writes alone and returns 0 or \<open>-1\<close>. It
  returns 0 after one read when the flag already has the expected value, and \<open>-1\<close> after
  101 reads when the flag never has it.
\<close>

declare ec_io_wait_loop.simps [simp del]

lemma ec_io_wait_loop_trace:
  "trace (snd (ec_io_wait_loop hw port flag val data i w)) = trace w"
proof (induction hw port flag val data i w rule: ec_io_wait_loop.induct)
  case (1 hw port flag val data i w)
  show ?case
    by (subst ec_io_wait_loop.simps) (use 1 in \<open>auto simp: Let_def inb_def\<close>)
qed

lemma ec_io_wait_trace: "trace (snd (ec_io_wait hw port flag val w)) = trace w"
proof -
  have "trace (snd (ec_io_wait_loop hw port flag val d 0 (snd (inb hw port w)))) = trace w" for d
    by (simp add: ec_io_wait_loop_trace inb_def)
  then show ?thesis
    by (simp add: ec_io_wait_def Let_def split: prod.splits) (metis snd_conv)
qed

lemma ec_io_wait_result: "fst (ec_io_wait hw port flag val w) = 0 \<or> fst (ec_io_wait hw port flag val w) = - 1"
  by (simp add: ec_io_wait_def Let_def split: prod.splits)

lemma ec_io_wait_loop_match:
  "(drop_bit (unat flag) (uint data) AND 1) = val \<Longrightarrow>
   ec_io_wait_loop hw port flag val data i w = (i, w)"
  by (subst ec_io_wait_loop.simps) simp

lemma ec_io_wait_ready:
  assumes "(drop_bit (unat flag) (uint (hw (inb_count w) port)) AND 1) = val"
  shows "ec_io_wait hw port flag val w = (0, w\<lparr>inb_count := Suc (inb_count w)\<rparr>)"
  using assms by (simp add: ec_io_wait_def inb_def ec_io_wait_loop_match)

lemma ec_io_wait_loop_stuck:
  assumes "n = 100 - i" "i \<le> 100"
    and "(drop_bit (unat flag) (uint data) AND 1) \<noteq> val"
    and "\<forall>k < n. (drop_bit (unat flag) (uint (hw (inb_count w + k) port)) AND 1) \<noteq> val"
  shows "ec_io_wait_loop hw port flag val data i w = (101, w\<lparr>inb_count := inb_count w + n\<rparr>)"
  using assms
proof (induction n arbitrary: i data w)
  case 0
  then have "i = 100" by simp
  with 0 show ?case by (subst ec_io_wait_loop.simps) simp
next
  case (Suc n)
  then have i: "i < 100" "n = 100 - (i + 1)" "i + 1 \<le> 100" by simp_all
  define w' where "w' = w\<lparr>inb_count := Suc (inb_count w)\<rparr>"
  have d': "(drop_bit (unat flag) (uint (hw (inb_count w) port)) AND 1) \<noteq> val"
    using Suc.prems(4) by (metis add.right_neutral zero_less_Suc)
  have all': "\<forall>k < n. (drop_bit (unat flag) (uint (hw (inb_count w' + k) port)) AND 1) \<noteq> val"
  proof (intro allI impI)
    fix k :: nat
    assume "k < n"
    then have "Suc k < Suc n" by simp
    with Suc.prems(4)
    have "(drop_bit (unat flag) (uint (hw (inb_count w + Suc k) port)) AND 1) \<noteq> val"
      by blast
    then show "(drop_bit (unat flag) (uint (hw (inb_count w' + k) port)) AND 1) \<noteq> val"
      by (simp add: w'_def)
  qed
  have "ec_io_wait_loop hw port flag val (hw (inb_count w) port) (i + 1) w'
        = (101, w'\<lparr>inb_count := inb_count w' + n\<rparr>)"
    by (rule Suc.IH [OF i(2) i(3) d' all'])
  then show ?case
    using Suc.prems(3) i(1)
    by (subst ec_io_wait_loop.simps) (simp add: Let_def inb_def w'_def)
qed

lemma ec_io_wait_stuck:
  assumes "\<forall>k \<le> 100. (drop_bit (unat flag) (uint (hw (inb_count w + k) port)) AND 1) \<noteq> val"
  shows "ec_io_wait hw port flag val w = (- 1, w\<lparr>inb_count := inb_count w + 101\<rparr>)"
proof -
  define w' where "w' = w\<lparr>inb_count := Suc (inb_count w)\<rparr>"
  have d: "(drop_bit (unat flag) (uint (hw (inb_count w) port)) AND 1) \<noteq> val"
    using assms by (metis add.right_neutral zero_le)
  have all': "\<forall>k < 100. (drop_bit (unat flag) (uint (hw (inb_count w' + k) port)) AND 1) \<noteq> val"
  proof (intro allI impI)
    fix k :: nat
    assume "k < 100"
    then have "Suc k \<le> 100" by simp
    with assms have "(drop_bit (unat flag) (uint (hw (inb_count w + Suc k) port)) AND 1) \<noteq> val"
      by blast
    then show "(drop_bit (unat flag) (uint (hw (inb_count w' + k) port)) AND 1) \<noteq> val"
      by (simp add: w'_def)
  qed
  have "ec_io_wait_loop hw port flag val (hw (inb_count w) port) 0 w'
        = (101, w'\<lparr>inb_count := inb_count w' + 100\<rparr>)"
    using d all' by (intro ec_io_wait_loop_stuck) simp_all
  then show ?thesis by (simp add: ec_io_wait_def inb_def w'_def)
qed

subsection \<open>Abort of the write sequence\<close>

lemma outb_trace: "trace (outb v port w) = trace w @ [Outb v port]"
  and outb_count: "inb_count (outb v port w) = inb_count w"
  by (simp_all add: outb_def emit_def)

text \<open>
  Claim C8. The register write fails whenever one of its four handshake waits times out,
  and then the trace of port writes holds exactly the writes that came before the failed
  wait: none, the command opcode, or the opcode and the register address. When the first
  three waits succeed all three bytes are written and the result is that of the fourth
  wait. The result is 0 only if all four waits returned 0, and it is 0 or \<open>-1\<close>.
\<close>

theorem ec_io_do_abort:
  "(fst (do_wait1 hw w) \<noteq> 0 \<longrightarrow>
      ec_io_do hw cmd port v w = (- 1, snd (do_wait1 hw w))
      \<and> trace (snd (ec_io_do hw cmd port v w)) = trace w)
   \<and> (fst (do_wait1 hw w) = 0 \<and> fst (do_wait2 hw cmd w) \<noteq> 0 \<longrightarrow>
      ec_io_do hw cmd port v w = (- 1, snd (do_wait2 hw cmd w))
      \<and> trace (snd (ec_io_do hw cmd port v w)) = trace w @ [Outb (ucast cmd) EC_SC])
   \<and> (fst (do_wait1 hw w) = 0 \<and> fst (do_wait2 hw cmd w) = 0
        \<and> fst (do_wait3 hw cmd port w) \<noteq> 0 \<longrightarrow>
      ec_io_do hw cmd port v w = (- 1, snd (do_wait3 hw cmd port w))
      \<and> trace (snd (ec_io_do hw cmd port v w))
          = trace w @ [Outb (ucast cmd) EC_SC, Outb (ucast port) EC_DATA])
   \<and> (fst (do_wait1 hw w) = 0 \<and> fst (do_wait2 hw cmd w) = 0
        \<and> fst (do_wait3 hw cmd port w) = 0 \<longrightarrow>
      ec_io_do hw cmd port v w = do_wait4 hw cmd port v w
      \<and> trace (snd (ec_io_do hw cmd port v w))
          = trace w @ [Outb (ucast cmd) EC_SC, Outb (ucast port) EC_DATA, Outb v EC_DATA])
   \<and> (fst (ec_io_do hw cmd port v w) = 0 \<longleftrightarrow>
        fst (do_wait1 hw w) = 0 \<and> fst (do_wait2 hw cmd w) = 0
        \<and> fst (do_wait3 hw cmd port w) = 0 \<and> fst (do_wait4 hw cmd port v w) = 0)
   \<and> (fst (ec_io_do hw cmd port v w) = 0 \<or> fst (ec_io_do hw cmd port v w) = - 1)"
proof -
  obtain r1 w1 where s1: "ec_io_wait hw EC_SC IBF 0 w = (r1, w1)" by force
  obtain r2 w2 where s2: "ec_io_wait hw EC_SC IBF 0 (outb (ucast cmd) EC_SC w1) = (r2, w2)"
    by force
  obtain r3 w3 where s3: "ec_io_wait hw EC_SC IBF 0 (outb (ucast port) EC_DATA w2) = (r3, w3)"
    by force
  obtain r4 w4 where s4: "ec_io_wait hw EC_SC IBF 0 (outb v EC_DATA w3) = (r4, w4)"
    by force
  have t1: "trace w1 = trace w"
    using ec_io_wait_trace [of hw EC_SC IBF 0 w] by (simp add: s1)
  have t2: "trace w2 = trace w1 @ [Outb (ucast cmd) EC_SC]"
    using ec_io_wait_trace [of hw EC_SC IBF 0 "outb (ucast cmd) EC_SC w1"]
    by (simp add: s2 outb_trace)
  have t3: "trace w3 = trace w2 @ [Outb (ucast port) EC_DATA]"
    using ec_io_wait_trace [of hw EC_SC IBF 0 "outb (ucast port) EC_DATA w2"]
    by (simp add: s3 outb_trace)
  have t4: "trace w4 = trace w3 @ [Outb v EC_DATA]"
    using ec_io_wait_trace [of hw EC_SC IBF 0 "outb v EC_DATA w3"]
    by (simp add: s4 outb_trace)
  have r4: "r4 = 0 \<or> r4 = - 1"
    using ec_io_wait_result [of hw EC_SC IBF 0 "outb v EC_DATA w3"] by (simp add: s4)
  have d1: "do_wait1 hw w = (r1, w1)" by (simp add: do_wait1_def s1)
  have d2: "do_wait2 hw cmd w = (r2, w2)" by (simp add: do_wait2_def d1 s2)
  have d3: "do_wait3 hw cmd port w = (r3, w3)" by (simp add: do_wait3_def d2 s3)
  have d4: "do_wait4 hw cmd port v w = (r4, w4)" by (simp add: do_wait4_def d3 s4)
  have do: "ec_io_do hw cmd port v w =
      (if r1 \<noteq> 0 then (- 1, w1) else if r2 \<noteq> 0 then (- 1, w2)
       else if r3 \<noteq> 0 then (- 1, w3) else (r4, w4))"
    by (simp add: ec_io_do_def Let_def s1 s2 s3 s4)
  show ?thesis
    unfolding d1 d2 d3 d4 do using t1 t2 t3 t4 r4 by auto
qed

subsection \<open>The example controller\<close>

text \<open>
  Closed forms of the waits, the register read and the register write on the example
  controller \<open>dev k d\<close>, before and after its input buffer gets stuck.
\<close>

lemma dev_ports: "dev k d n 0x66 = (if n < k then 0x01 else 0x02)" "dev k d n 0x62 = d"
  by (simp_all add: dev_def)

lemma flag_values:
  "(drop_bit (unat (1 :: 32 word)) (uint (1 :: 8 word)) AND 1) = (0 :: int)"
  "(drop_bit (unat (1 :: 32 word)) (uint (2 :: 8 word)) AND 1) = (1 :: int)"
  "(drop_bit (unat (0 :: 32 word)) (uint (1 :: 8 word)) AND 1) = (1 :: int)"
  "(drop_bit (unat (0 :: 32 word)) (uint (2 :: 8 word)) AND 1) = (0 :: int)"
  by (simp_all add: drop_bit_eq_div)

lemma dev_wait_ready:
  assumes "inb_count w < k"
  shows "ec_io_wait (dev k d) 0x66 1 0 w = (0, w\<lparr>inb_count := Suc (inb_count w)\<rparr>)"
    and "ec_io_wait (dev k d) 0x66 0 1 w = (0, w\<lparr>inb_count := Suc (inb_count w)\<rparr>)"
  using assms by (simp_all add: ec_io_wait_ready dev_ports flag_values)

lemma dev_wait_stuck:
  assumes "k \<le> inb_count w"
  shows "ec_io_wait (dev k d) 0x66 1 0 w = (- 1, w\<lparr>inb_count := inb_count w + 101\<rparr>)"
    and "ec_io_wait (dev k d) 0x66 0 1 w = (- 1, w\<lparr>inb_count := inb_count w + 101\<rparr>)"
  using assms by (simp_all add: ec_io_wait_stuck dev_ports flag_values)

lemma dev_do_stuck:
  assumes "k \<le> inb_count w"
  shows "ec_io_do (dev k d) cmd port v w = (- 1, w\<lparr>inb_count := inb_count w + 101\<rparr>)"
  using assms by (simp add: ec_io_do_def dev_wait_stuck)

lemma dev_read_stuck:
  assumes "k \<le> inb_count w"
  shows "ec_io_read (dev k d) port w =
    (d, w\<lparr>inb_count := inb_count w + 304,
          trace := trace w @ [Outb 0x80 0x66, Outb (ucast port) 0x62]\<rparr>)"
  using assms
  by (simp add: ec_io_read_def Let_def dev_wait_stuck outb_def emit_def inb_def dev_ports)

lemma dev_do_ready:
  assumes "inb_count w + 4 \<le> k"
  shows "ec_io_do (dev k d) cmd port v w =
    (0, w\<lparr>inb_count := inb_count w + 4,
          trace := trace w @ [Outb (ucast cmd) 0x66, Outb (ucast port) 0x62, Outb v 0x62]\<rparr>)"
  using assms
  by (simp add: ec_io_do_def Let_def dev_wait_ready outb_def emit_def)

lemma dev_read_ready:
  assumes "inb_count w + 3 \<le> k"
  shows "ec_io_read (dev k d) port w =
    (d, w\<lparr>inb_count := inb_count w + 4,
          trace := trace w @ [Outb 0x80 0x66, Outb (ucast port) 0x62]\<rparr>)"
  using assms
  by (simp add: ec_io_read_def Let_def dev_wait_ready outb_def emit_def inb_def dev_ports)

text \<open>
  The write sequence on four controllers: stuck from the start, after one poll, after two
  polls, and not before the sequence is over.
\<close>

theorem ec_io_do_abort_witness:
  "fst (do_wait1 (dev 0 0) w0) \<noteq> 0
   \<and> ec_io_do (dev 0 0) 0x99 0x01 5 w0 = (- 1, \<lparr>inb_count = 101, trace = []\<rparr>)
   \<and> fst (do_wait1 (dev 1 0) w0) = 0 \<and> fst (do_wait2 (dev 1 0) 0x99 w0) \<noteq> 0
   \<and> ec_io_do (dev 1 0) 0x99 0x01 5 w0 = (- 1, \<lparr>inb_count = 102, trace = [Outb 0x99 0x66]\<rparr>)
   \<and> fst (do_wait1 (dev 2 0) w0) = 0 \<and> fst (do_wait2 (dev 2 0) 0x99 w0) = 0
   \<and> fst (do_wait3 (dev 2 0) 0x99 0x01 w0) \<noteq> 0
   \<and> ec_io_do (dev 2 0) 0x99 0x01 5 w0
       = (- 1, \<lparr>inb_count = 103, trace = [Outb 0x99 0x66, Outb 0x01 0x62]\<rparr>)
   \<and> fst (do_wait1 (dev 4 0) w0) = 0 \<and> fst (do_wait2 (dev 4 0) 0x99 w0) = 0
   \<and> fst (do_wait3 (dev 4 0) 0x99 0x01 w0) = 0
   \<and> ec_io_do (dev 4 0) 0x99 0x01 5 w0
       = (0, \<lparr>inb_count = 4, trace = [Outb 0x99 0x66, Outb 0x01 0x62, Outb 5 0x62]\<rparr>)"
  using ec_io_do_abort [where hw = "dev 0 0" and w = w0 and cmd = "0x99" and port = "0x01" and v = 5]
    ec_io_do_abort [where hw = "dev 1 0" and w = w0 and cmd = "0x99" and port = "0x01" and v = 5]
    ec_io_do_abort [where hw = "dev 2 0" and w = w0 and cmd = "0x99" and port = "0x01" and v = 5]
    ec_io_do_abort [where hw = "dev 4 0" and w = w0 and cmd = "0x99" and port = "0x01" and v = 5]
  by (simp add: do_wait1_def do_wait2_def do_wait3_def do_wait4_def dev_wait_ready
      dev_wait_stuck outb_def emit_def w0_def)

subsection \<open>One pass of the auto loop\<close>

text \<open>
  What a pass computes from the temperatures it read, and two passes evaluated on a
  controller whose input buffer is stuck full while both sensors read 90 degrees.
\<close>

lemma cmd_auto_pass_newduty:
  "p_newduty (fst (fst (cmd_auto_pass env hw last_pct w)))
     = clamp (if p_th (fst (fst (cmd_auto_pass env hw last_pct w))) \<ge> 80 then 100
              else step_toward last_pct
                (target_duty_from_temp_hot (p_th (fst (fst (cmd_auto_pass env hw last_pct w)))) last_pct))
         0 100"
  and cmd_auto_pass_target:
  "p_target (fst (fst (cmd_auto_pass env hw last_pct w)))
     = target_duty_from_temp_hot (p_th (fst (fst (cmd_auto_pass env hw last_pct w)))) last_pct"
  and cmd_auto_pass_th:
  "p_th (fst (fst (cmd_auto_pass env hw last_pct w)))
     = max (p_tc (fst (fst (cmd_auto_pass env hw last_pct w))))
           (p_tg (fst (fst (cmd_auto_pass env hw last_pct w))))"
  and cmd_auto_pass_last:
  "snd (fst (cmd_auto_pass env hw last_pct w))
     = p_newduty (fst (fst (cmd_auto_pass env hw last_pct w)))"
  and cmd_auto_pass_writes:
  "(p_write_results (fst (fst (cmd_auto_pass env hw last_pct w))) = None)
     = (p_newduty (fst (fst (cmd_auto_pass env hw last_pct w))) = last_pct)"
  by (simp_all add: cmd_auto_pass_def Let_def split: prod.splits)

lemma pass_stuck:
  "last_pct \<noteq> 100 \<Longrightarrow> cmd_auto_pass env_bare (dev 0 90) last_pct w0 =
     ((\<lparr>p_tc = 90, p_tg = 90, p_th = 90, p_target = 100, p_newduty = 100,
        p_write_results = Some (- 1, - 1), p_r1 = 93, p_r2 = 93\<rparr>, 100),
      \<lparr>inb_count = 2026,
       trace = [Outb 0x80 0x66, Outb 0x07 0x62, Opendir_hwmon, Access_nvidia_smi,
                Outb 0x80 0x66, Outb 0xCD 0x62,
                Outb 0x80 0x66, Outb 0xD0 0x62, Outb 0x80 0x66, Outb 0xD1 0x62,
                Outb 0x80 0x66, Outb 0xD2 0x62, Outb 0x80 0x66, Outb 0xD3 0x62]\<rparr>)"
  by (simp add: cmd_auto_pass_def Let_def cpu_temp_ec_def gpu_temp_def gpu_temp_sysfs_def
      gpu_temp_nvidia_smi_def env_bare_def fan1_duty_write_def fan2_duty_write_def
      fan1_rpm_read_def fan2_rpm_read_def dev_read_stuck dev_do_stuck emit_def w0_def
      target_duty_from_temp_hot_def clamp_def rpm_from_raw_def c_div_def)

lemma pass_stuck_again:
  "last_pct \<noteq> 100 \<Longrightarrow>
   cmd_auto_pass env_bare (dev 0 90) 100 (snd (cmd_auto_pass env_bare (dev 0 90) last_pct w0)) =
     ((\<lparr>p_tc = 90, p_tg = 90, p_th = 90, p_target = 100, p_newduty = 100,
        p_write_results = None, p_r1 = 93, p_r2 = 93\<rparr>, 100),
      \<lparr>inb_count = 3850,
       trace = [Outb 0x80 0x66, Outb 0x07 0x62, Opendir_hwmon, Access_nvidia_smi,
                Outb 0x80 0x66, Outb 0xCD 0x62,
                Outb 0x80 0x66, Outb 0xD0 0x62, Outb 0x80 0x66, Outb 0xD1 0x62,
                Outb 0x80 0x66, Outb 0xD2 0x62, Outb 0x80 0x66, Outb 0xD3 0x62,
                Outb 0x80 0x66, Outb 0x07 0x62, Opendir_hwmon, Access_nvidia_smi,
                Outb 0x80 0x66, Outb 0xCD 0x62,
                Outb 0x80 0x66, Outb 0xD0 0x62, Outb 0x80 0x66, Outb 0xD1 0x62,
                Outb 0x80 0x66, Outb 0xD2 0x62, Outb 0x80 0x66, Outb 0xD3 0x62]\<rparr>)"
  by (simp add: pass_stuck cmd_auto_pass_def Let_def cpu_temp_ec_def gpu_temp_def gpu_temp_sysfs_def
      gpu_temp_nvidia_smi_def env_bare_def fan1_duty_write_def fan2_duty_write_def
      fan1_rpm_read_def fan2_rpm_read_def dev_read_stuck dev_do_stuck emit_def w0_def
      target_duty_from_temp_hot_def clamp_def rpm_from_raw_def c_div_def)

subsection \<open>Safety override\<close>

text \<open>
  Claim C1. For every temperature \<open>hot \<ge> 80\<close> and every previous duty \<open>prev\<close>, the target
  duty is exactly 100; and in a pass of the auto loop whose hotter temperature is \<open>hot\<close>,
  the target, the new duty and the value left in \<^verbatim>\<open>last\<close> are 100, whatever the step limit
  and the previous duty, a cold start at 0 included.
\<close>

theorem safety_override:
  assumes "80 \<le> hot"
  shows "target_duty_from_temp_hot hot prev = 100
    \<and> (p_th (fst (fst (cmd_auto_pass env hw prev w))) = hot \<longrightarrow>
         p_target (fst (fst (cmd_auto_pass env hw prev w))) = 100
         \<and> p_newduty (fst (fst (cmd_auto_pass env hw prev w))) = 100
         \<and> snd (fst (cmd_auto_pass env hw prev w)) = 100)"
proof -
  have t: "target_duty_from_temp_hot hot prev = 100"
    using assms by (simp add: target_duty_from_temp_hot_def)
  show ?thesis
    using assms t
    by (simp add: cmd_auto_pass_last cmd_auto_pass_target cmd_auto_pass_newduty clamp_def)
qed

theorem safety_override_witness:
  "(80::int) \<le> 90
   \<and> target_duty_from_temp_hot 90 0 = 100
   \<and> p_th (fst (fst (cmd_auto_pass env_bare (dev 0 90) 0 w0))) = 90
   \<and> p_newduty (fst (fst (cmd_auto_pass env_bare (dev 0 90) 0 w0))) = 100
   \<and> snd (fst (cmd_auto_pass env_bare (dev 0 90) 0 w0)) = 100"
  using safety_override [where hot = 90 and prev = 0 and env = env_bare and hw = "dev 0 90"
      and w = w0]
  by (simp add: pass_stuck)

subsection \<open>Hysteresis\<close>

text \<open>
  Claim C3. With a previous duty of 0 the target stays 0 for every temperature up to 42
  and is positive at 43; with a previous duty of 20 the target is 20 at 39 and 0 at 37.
\<close>

theorem hysteresis_band:
  "(hot \<le> 42 \<longrightarrow> target_duty_from_temp_hot hot 0 = 0)
   \<and> target_duty_from_temp_hot 41 0 = 0
   \<and> 0 < target_duty_from_temp_hot 43 0
   \<and> target_duty_from_temp_hot 39 20 = 20
   \<and> target_duty_from_temp_hot 37 20 = 0"
proof -
  have "target_duty_from_temp_hot 43 0 = 2 * 43 - 60" by (rule target_linear) simp_all
  then show ?thesis by (simp add: target_duty_from_temp_hot_def)
qed

theorem hysteresis_band_witness:
  "(42::int) \<le> 42 \<and> target_duty_from_temp_hot 42 0 = 0 \<and> 0 < target_duty_from_temp_hot 43 0"
  using hysteresis_band [of 42] by simp

subsection \<open>Linear region\<close>

lemma spec_linear_duty_eq:
  assumes "40 < hot" "hot < 80"
  shows "spec_linear_duty hot = 2 * hot - 60"
proof -
  have "(20 + (100 - 20) * (of_int hot - 40) / (80 - 40) :: rat) = of_int (2 * hot - 60)"
    by (simp add: field_simps)
  then have "round (20 + (100 - 20) * (of_int hot - 40) / (80 - 40) :: rat) = 2 * hot - 60"
    by (simp only: round_of_int)
  then show ?thesis using assms by (simp add: spec_linear_duty_def clamp_def)
qed

text \<open>
  Claim C5. For \<open>40 < hot < 80\<close>, and a previous duty for which the hysteresis does not
  force 0 (that is, \<open>hot > 42\<close> when the previous duty is 0), the target duty equals the
  specification's \<open>round (20 + (100 - 20) * (hot - 40) / (80 - 40))\<close> clamped to
  \<open>[0, 100]\<close>, which is \<open>2 * hot - 60\<close>; at 60 degrees it is 60.
\<close>

theorem linear_region:
  assumes "40 < hot" "hot < 80" "prev = 0 \<longrightarrow> 42 < hot"
  shows "target_duty_from_temp_hot hot prev = spec_linear_duty hot
    \<and> target_duty_from_temp_hot hot prev = 2 * hot - 60"
proof -
  have "\<not> (prev = 0 \<and> hot \<le> 42)" using assms(3) by auto
  with assms have "target_duty_from_temp_hot hot prev = 2 * hot - 60" by (intro target_linear)
  then show ?thesis using assms by (simp add: spec_linear_duty_eq)
qed

theorem linear_region_witness:
  "(40::int) < 60 \<and> (60::int) < 80 \<and> (20::int) \<noteq> 0 \<and> (42::int) < 60
   \<and> target_duty_from_temp_hot 60 20 = spec_linear_duty 60
   \<and> target_duty_from_temp_hot 60 20 = 60"
  using linear_region [of 60 20] by simp

subsection \<open>The duty floor\<close>

text \<open>
  Claim C10. For a previous duty of at least 1 and a temperature from 38 to 40 the target
  is exactly 20, whatever the previous duty; and below 80 degrees the target is 0 or lies
  in \<open>[20, 100]\<close>, never in \<open>[1, 19]\<close>.
\<close>

theorem floor_when_running:
  "(1 \<le> prev_pct \<and> 38 \<le> temp_c \<and> temp_c \<le> 40 \<longrightarrow>
      target_duty_from_temp_hot temp_c prev_pct = 20)
   \<and> (temp_c < 80 \<longrightarrow>
      target_duty_from_temp_hot temp_c prev_pct = 0
      \<or> (20 \<le> target_duty_from_temp_hot temp_c prev_pct
          \<and> target_duty_from_temp_hot temp_c prev_pct \<le> 100))"
proof (intro conjI impI)
  assume "1 \<le> prev_pct \<and> 38 \<le> temp_c \<and> temp_c \<le> 40"
  then show "target_duty_from_temp_hot temp_c prev_pct = 20"
    by (simp add: target_duty_from_temp_hot_def)
next
  assume lt: "temp_c < 80"
  show "target_duty_from_temp_hot temp_c prev_pct = 0
      \<or> (20 \<le> target_duty_from_temp_hot temp_c prev_pct
          \<and> target_duty_from_temp_hot temp_c prev_pct \<le> 100)"
  proof (cases "temp_c \<le> 40 \<or> (prev_pct = 0 \<and> temp_c \<le> 42)")
    case True
    then show ?thesis using lt by (auto simp: target_duty_from_temp_hot_def)
  next
    case False
    then have "target_duty_from_temp_hot temp_c prev_pct = 2 * temp_c - 60"
      using lt by (intro target_linear) auto
    then show ?thesis using False lt by simp
  qed
qed

theorem floor_when_running_witness:
  "(1::int) \<le> 57 \<and> (38::int) \<le> 39 \<and> (39::int) \<le> 40
   \<and> target_duty_from_temp_hot 39 57 = 20
   \<and> (39::int) < 80
   \<and> (target_duty_from_temp_hot 39 57 = 0
       \<or> (20 \<le> target_duty_from_temp_hot 39 57 \<and> target_duty_from_temp_hot 39 57 \<le> 100))"
  using floor_when_running [of 57 39] by simp

subsection \<open>Round trip of the duty conversion\<close>

lemma spec_PercentToRaw_eq: "spec_PercentToRaw p = (51 * p + 10) div 20"
proof -
  have "(of_int p / 100 * 255 + 1 / 2 :: rat) = of_int (51 * p + 10) / of_int 20" by simp
  then show ?thesis
    by (simp only: spec_PercentToRaw_def round_def floor_divide_of_int_eq)
qed

lemma spec_RawToPercent_eq:
  assumes "0 \<le> n" "n \<le> 255"
  shows "spec_RawToPercent n = (40 * n + 51) div 102"
proof -
  have "(of_int n / 255 * 100 + 1 / 2 :: rat) = of_int (40 * n + 51) / of_int 102" by simp
  then have "round (of_int n / 255 * 100 :: rat) = (40 * n + 51) div 102"
    by (simp only: round_def floor_divide_of_int_eq)
  then show ?thesis using pct_range [OF assms] by (simp add: spec_RawToPercent_def clamp_def)
qed

text \<open>
  Claim C6. For every percentage in \<open>[0, 100]\<close>, converting it to a raw byte as the duty
  write does, back to a percentage as the duty read does, and to a raw byte again gives
  the first raw byte; the read even returns the percentage itself. The byte written is the
  specification's \<open>round (pct / 100 * 255)\<close> and the percentage read back is its
  \<open>round (raw / 255 * 100)\<close> clamped to \<open>[0, 100]\<close>.
\<close>

theorem duty_round_trip:
  assumes "0 \<le> pct" "pct \<le> 100"
  shows "duty_raw_of_pct (duty_pct_of_raw (uint (duty_raw_of_pct pct))) = duty_raw_of_pct pct
    \<and> duty_pct_of_raw (uint (duty_raw_of_pct pct)) = pct
    \<and> uint (duty_raw_of_pct pct) = spec_PercentToRaw pct
    \<and> duty_pct_of_raw (uint (duty_raw_of_pct pct)) = spec_RawToPercent (uint (duty_raw_of_pct pct))"
proof -
  have raw: "uint (duty_raw_of_pct pct) = (51 * pct + 10) div 20"
    using assms by (rule duty_raw_of_pct_eq)
  have rng: "0 \<le> (51 * pct + 10) div 20" "(51 * pct + 10) div 20 \<le> 255"
    using assms by (rule raw_range)+
  have rt: "duty_pct_of_raw (uint (duty_raw_of_pct pct)) = pct"
    unfolding raw using rng by (simp add: duty_pct_of_raw_eq roundtrip_arith)
  have "spec_RawToPercent ((51 * pct + 10) div 20) = pct"
    using rng by (simp add: spec_RawToPercent_eq roundtrip_arith)
  then show ?thesis using rt raw by (simp add: spec_PercentToRaw_eq)
qed

theorem duty_round_trip_witness:
  "(0::int) \<le> 30 \<and> (30::int) \<le> 100
   \<and> duty_raw_of_pct (duty_pct_of_raw (uint (duty_raw_of_pct 30))) = duty_raw_of_pct 30
   \<and> duty_pct_of_raw (uint (duty_raw_of_pct 30)) = 30"
proof -
  have "duty_raw_of_pct (duty_pct_of_raw (uint (duty_raw_of_pct 30))) = duty_raw_of_pct 30"
    and "duty_pct_of_raw (uint (duty_raw_of_pct 30)) = 30"
    using duty_round_trip [of 30] by (simp (no_asm_use), blast)+
  then show ?thesis by simp
qed

subsection \<open>GPU temperature sources\<close>

text \<open>
  The sysfs scan and the vendor tool do not touch the ports; their results do not depend
  on the world they start in. On the example machine the scan finds 55 degrees and the
  vendor tool, were it asked, would answer 70.
\<close>

declare temp_inputs_loop.simps [simp del]

lemma gpu_temp_sysfs_world:
  "gpu_temp_sysfs env w = (fst (gpu_temp_sysfs env w0), emit Opendir_hwmon w)"
  by (simp add: gpu_temp_sysfs_def Let_def split: option.splits)

lemma gpu_temp_nvidia_smi_world:
  "fst (gpu_temp_nvidia_smi env w) = fst (gpu_temp_nvidia_smi env w0)"
  by (simp add: gpu_temp_nvidia_smi_def Let_def emit_def split: smi.splits)

lemma gpu_temp_nvidia_smi_effect:
  "inb_count (snd (gpu_temp_nvidia_smi env w)) = inb_count w"
  "trace (snd (gpu_temp_nvidia_smi env w)) =
     trace w @ (if nvidia_smi env = Smi_missing then [Access_nvidia_smi]
                else [Access_nvidia_smi, Popen_nvidia_smi])"
  by (simp_all add: gpu_temp_nvidia_smi_def Let_def emit_def split: smi.splits)

lemma amdgpu_scan: "fst (gpu_temp_sysfs env_amdgpu w0) = 55"
  by code_simp

lemma amdgpu_smi: "fst (gpu_temp_nvidia_smi env_amdgpu w0) = 70"
  by code_simp

lemma sysfs_amdgpu: "gpu_temp_sysfs env_amdgpu w = (55, emit Opendir_hwmon w)"
  by (subst gpu_temp_sysfs_world) (simp add: amdgpu_scan)

lemma ec_io_read_trace:
  "trace (snd (ec_io_read hw port w)) = trace w @ [Outb 0x80 0x66, Outb (ucast port) 0x62]"
  by (simp add: ec_io_read_def Let_def inb_def ec_io_wait_trace outb_trace)

text \<open>
  Claim C9. The three sources are tried in order (sysfs scan, vendor tool, EC register) and
  the first that returns a value above 0 gives the result; the sources after it are not
  consulted: when the scan gives the result the world only gains the \<^verbatim>\<open>opendir\<close>, and when
  the vendor tool gives it no port is read or written. Only when both return nothing above
  0 is the EC register read. With a matching \<^verbatim>\<open>amdgpu\<close> monitor at 55000 millidegrees the
  result is 55 and the vendor tool, which would have answered 70, is not invoked.
\<close>

theorem gpu_temp_fallback_order:
  "(0 < fst (gpu_temp_sysfs env w) \<longrightarrow>
      gpu_temp env hw w = gpu_temp_sysfs env w
      \<and> snd (gpu_temp env hw w) = emit Opendir_hwmon w)
   \<and> (fst (gpu_temp_sysfs env w) \<le> 0
       \<and> 0 < fst (gpu_temp_nvidia_smi env (emit Opendir_hwmon w)) \<longrightarrow>
      gpu_temp env hw w = gpu_temp_nvidia_smi env (emit Opendir_hwmon w)
      \<and> inb_count (snd (gpu_temp env hw w)) = inb_count w
      \<and> trace (snd (gpu_temp env hw w))
          = trace w @ [Opendir_hwmon, Access_nvidia_smi, Popen_nvidia_smi])
   \<and> (fst (gpu_temp_sysfs env w) \<le> 0
       \<and> fst (gpu_temp_nvidia_smi env (emit Opendir_hwmon w)) \<le> 0 \<longrightarrow>
      fst (gpu_temp env hw w)
        = uint (fst (ec_io_read hw EC_REG_GPU_TEMP
                       (snd (gpu_temp_nvidia_smi env (emit Opendir_hwmon w))))))
   \<and> gpu_temp env_amdgpu hw w = (55, emit Opendir_hwmon w)
   \<and> fst (gpu_temp_nvidia_smi env_amdgpu (emit Opendir_hwmon w)) = 70"
proof -
  have s: "snd (gpu_temp_sysfs env w) = emit Opendir_hwmon w"
    by (subst gpu_temp_sysfs_world) simp
  have popen: "0 < fst (gpu_temp_nvidia_smi env w') \<Longrightarrow> nvidia_smi env \<noteq> Smi_missing" for w'
    by (auto simp: gpu_temp_nvidia_smi_def)
  have a: "gpu_temp env_amdgpu hw w = (55, emit Opendir_hwmon w)"
    by (simp add: gpu_temp_def sysfs_amdgpu)
  have b: "fst (gpu_temp_nvidia_smi env_amdgpu (emit Opendir_hwmon w)) = 70"
    by (subst gpu_temp_nvidia_smi_world) (rule amdgpu_smi)
  have 1: "0 < fst (gpu_temp_sysfs env w) \<Longrightarrow> gpu_temp env hw w = gpu_temp_sysfs env w"
    by (simp add: gpu_temp_def case_prod_beta)
  have 2: "fst (gpu_temp_sysfs env w) \<le> 0 \<Longrightarrow>
           0 < fst (gpu_temp_nvidia_smi env (emit Opendir_hwmon w)) \<Longrightarrow>
           gpu_temp env hw w = gpu_temp_nvidia_smi env (emit Opendir_hwmon w)"
    using s by (simp add: gpu_temp_def case_prod_beta)
  have 3: "fst (gpu_temp_sysfs env w) \<le> 0 \<Longrightarrow>
           fst (gpu_temp_nvidia_smi env (emit Opendir_hwmon w)) \<le> 0 \<Longrightarrow>
           fst (gpu_temp env hw w)
             = uint (fst (ec_io_read hw EC_REG_GPU_TEMP
                       (snd (gpu_temp_nvidia_smi env (emit Opendir_hwmon w)))))"
    using s by (simp add: gpu_temp_def case_prod_beta)
  show ?thesis
    using 1 2 3 a b s popen [of "emit Opendir_hwmon w"]
    by (auto simp: gpu_temp_nvidia_smi_effect emit_def)
qed

theorem gpu_temp_fallback_order_witness:
  "0 < fst (gpu_temp_sysfs env_amdgpu w0)
   \<and> gpu_temp env_amdgpu (dev 0 90) w0 = (55, emit Opendir_hwmon w0)
   \<and> fst (gpu_temp_sysfs (env_amdgpu\<lparr>hwmon := None\<rparr>) w0) \<le> 0
   \<and> 0 < fst (gpu_temp_nvidia_smi (env_amdgpu\<lparr>hwmon := None\<rparr>) (emit Opendir_hwmon w0))
   \<and> fst (gpu_temp (env_amdgpu\<lparr>hwmon := None\<rparr>) (dev 0 90) w0) = 70
   \<and> trace (snd (gpu_temp (env_amdgpu\<lparr>hwmon := None\<rparr>) (dev 0 90) w0))
       = trace w0 @ [Opendir_hwmon, Access_nvidia_smi, Popen_nvidia_smi]
   \<and> fst (gpu_temp_sysfs env_bare w0) \<le> 0
   \<and> fst (gpu_temp_nvidia_smi env_bare (emit Opendir_hwmon w0)) \<le> 0
   \<and> fst (gpu_temp env_bare (dev 0 90) w0) = 90"
proof -
  have e2: "fst (gpu_temp_sysfs (env_amdgpu\<lparr>hwmon := None\<rparr>) w0) = - 1"
    by (simp add: gpu_temp_sysfs_def)
  have "fst (gpu_temp_nvidia_smi (env_amdgpu\<lparr>hwmon := None\<rparr>) w0) = 70"
    by code_simp
  then have e3: "fst (gpu_temp_nvidia_smi (env_amdgpu\<lparr>hwmon := None\<rparr>) (emit Opendir_hwmon w0)) = 70"
    by (subst gpu_temp_nvidia_smi_world)
  have e4: "fst (gpu_temp_sysfs env_bare w0) = - 1"
    by (simp add: gpu_temp_sysfs_def env_bare_def)
  have e5: "gpu_temp_nvidia_smi env_bare (emit Opendir_hwmon w0)
      = (- 1, emit Access_nvidia_smi (emit Opendir_hwmon w0))"
    by (simp add: gpu_temp_nvidia_smi_def env_bare_def)
  have e6: "fst (ec_io_read (dev 0 90) 0xCD (emit Access_nvidia_smi (emit Opendir_hwmon w0))) = 90"
    by (simp add: dev_read_stuck)
  note t1 = gpu_temp_fallback_order [where env = env_amdgpu and hw = "dev 0 90" and w = w0]
  note t2 = gpu_temp_fallback_order [where env = "env_amdgpu\<lparr>hwmon := None\<rparr>"
      and hw = "dev 0 90" and w = w0]
  note t3 = gpu_temp_fallback_order [where env = env_bare and hw = "dev 0 90" and w = w0]
  have h1: "0 < fst (gpu_temp_sysfs env_amdgpu w0)" by (simp add: amdgpu_scan)
  have h2: "fst (gpu_temp_sysfs (env_amdgpu\<lparr>hwmon := None\<rparr>) w0) \<le> 0
      \<and> 0 < fst (gpu_temp_nvidia_smi (env_amdgpu\<lparr>hwmon := None\<rparr>) (emit Opendir_hwmon w0))"
    by (simp add: e2 e3)
  have h3: "fst (gpu_temp_sysfs env_bare w0) \<le> 0
      \<and> fst (gpu_temp_nvidia_smi env_bare (emit Opendir_hwmon w0)) \<le> 0"
    by (simp add: e4 e5)
  from t1 have c1: "gpu_temp env_amdgpu (dev 0 90) w0 = (55, emit Opendir_hwmon w0)" by blast
  from t2 h2 have c2: "gpu_temp (env_amdgpu\<lparr>hwmon := None\<rparr>) (dev 0 90) w0
        = gpu_temp_nvidia_smi (env_amdgpu\<lparr>hwmon := None\<rparr>) (emit Opendir_hwmon w0)"
    and c2': "trace (snd (gpu_temp (env_amdgpu\<lparr>hwmon := None\<rparr>) (dev 0 90) w0))
        = trace w0 @ [Opendir_hwmon, Access_nvidia_smi, Popen_nvidia_smi]"
    by blast+
  from t3 h3 have c3: "fst (gpu_temp env_bare (dev 0 90) w0)
        = uint (fst (ec_io_read (dev 0 90) EC_REG_GPU_TEMP
                       (snd (gpu_temp_nvidia_smi env_bare (emit Opendir_hwmon w0)))))"
    by blast
  have c3': "fst (gpu_temp env_bare (dev 0 90) w0) = 90"
    unfolding c3 e5 by (simp add: e6)
  have c2'': "fst (gpu_temp (env_amdgpu\<lparr>hwmon := None\<rparr>) (dev 0 90) w0) = 70"
    unfolding c2 by (rule e3)
  show ?thesis
    by (intro conjI) (rule h1 c1 c2' c2'' c3' h2 [THEN conjunct1] h2 [THEN conjunct2]
        h3 [THEN conjunct1] h3 [THEN conjunct2])+
qed

subsection \<open>The auto loop and failed writes\<close>

text \<open>
  A register write that reports success has put its three bytes on the ports; the RPM
  reads put the read command and the register address there.
\<close>

lemma ec_io_do_ok_trace:
  assumes "fst (ec_io_do hw cmd port v w) = 0"
  shows "trace (snd (ec_io_do hw cmd port v w))
    = trace w @ [Outb (ucast cmd) 0x66, Outb (ucast port) 0x62, Outb v 0x62]"
proof -
  obtain r1 w1 where s1: "ec_io_wait hw EC_SC IBF 0 w = (r1, w1)" by force
  obtain r2 w2 where s2: "ec_io_wait hw EC_SC IBF 0 (outb (ucast cmd) EC_SC w1) = (r2, w2)"
    by force
  obtain r3 w3 where s3: "ec_io_wait hw EC_SC IBF 0 (outb (ucast port) EC_DATA w2) = (r3, w3)"
    by force
  obtain r4 w4 where s4: "ec_io_wait hw EC_SC IBF 0 (outb v EC_DATA w3) = (r4, w4)"
    by force
  have t1: "trace w1 = trace w"
    using ec_io_wait_trace [of hw EC_SC IBF 0 w] by (simp add: s1)
  have t2: "trace w2 = trace w1 @ [Outb (ucast cmd) EC_SC]"
    using ec_io_wait_trace [of hw EC_SC IBF 0 "outb (ucast cmd) EC_SC w1"]
    by (simp add: s2 outb_trace)
  have t3: "trace w3 = trace w2 @ [Outb (ucast port) EC_DATA]"
    using ec_io_wait_trace [of hw EC_SC IBF 0 "outb (ucast port) EC_DATA w2"]
    by (simp add: s3 outb_trace)
  have t4: "trace w4 = trace w3 @ [Outb v EC_DATA]"
    using ec_io_wait_trace [of hw EC_SC IBF 0 "outb v EC_DATA w3"]
    by (simp add: s4 outb_trace)
  have do: "ec_io_do hw cmd port v w =
      (if r1 \<noteq> 0 then (- 1, w1) else if r2 \<noteq> 0 then (- 1, w2)
       else if r3 \<noteq> 0 then (- 1, w3) else (r4, w4))"
    by (simp add: ec_io_do_def Let_def s1 s2 s3 s4)
  show ?thesis
    using assms unfolding do using t1 t2 t3 t4 by (auto split: if_splits)
qed

lemma rpm_read_trace:
  "trace (snd (fan1_rpm_read hw w))
     = trace w @ [Outb 0x80 0x66, Outb 0xD0 0x62, Outb 0x80 0x66, Outb 0xD1 0x62]"
  "trace (snd (fan2_rpm_read hw w))
     = trace w @ [Outb 0x80 0x66, Outb 0xD2 0x62, Outb 0x80 0x66, Outb 0xD3 0x62]"
  by (simp_all add: fan1_rpm_read_def fan2_rpm_read_def case_prod_beta ec_io_read_trace)

lemma fan_writes_ok_trace:
  assumes "fst (fan1_duty_write hw nd w) = 0"
    and "fst (fan2_duty_write hw nd (snd (fan1_duty_write hw nd w))) = 0"
  shows "trace (snd (fan2_duty_write hw nd (snd (fan1_duty_write hw nd w))))
    = trace w @ [Outb 0x99 0x66, Outb 0x01 0x62, Outb (duty_raw_of_pct nd) 0x62,
                 Outb 0x99 0x66, Outb 0x02 0x62, Outb (duty_raw_of_pct nd) 0x62]"
  using assms by (simp add: fan1_duty_write_def fan2_duty_write_def ec_io_do_ok_trace)

text \<open>
  Claim C2 says that a pass whose duty write fails leaves \<^verbatim>\<open>last\<close> unchanged, so that the
  next pass tries the same write again. The source discards the results of both writes and
  assigns \<^verbatim>\<open>last = newduty\<close> right after them. On a controller whose input buffer is stuck
  full, with both sensors at 90 degrees and \<^verbatim>\<open>last\<close> at 35: both writes return \<open>-1\<close>, no
  byte of the write sequence reaches the ports, \<^verbatim>\<open>last\<close> becomes 100, and the next pass
  attempts no write at all.
\<close>

theorem auto_write_failure_counterexample:
  "p_write_results (fst (fst (cmd_auto_pass env_bare (dev 0 90) 35 w0))) = Some (- 1, - 1)
   \<and> snd (fst (cmd_auto_pass env_bare (dev 0 90) 35 w0)) = 100
   \<and> Outb 0x99 0x66 \<notin> set (trace (snd (cmd_auto_pass env_bare (dev 0 90) 35 w0)))
   \<and> p_write_results (fst (fst (cmd_auto_pass env_bare (dev 0 90) 100
         (snd (cmd_auto_pass env_bare (dev 0 90) 35 w0))))) = None"
proof -
  have "p_write_results (fst (fst (cmd_auto_pass env_bare (dev 0 90) 100
         (snd (cmd_auto_pass env_bare (dev 0 90) 35 w0))))) = None"
    by (subst pass_stuck_again) simp_all
  then show ?thesis by (simp add: pass_stuck)
qed

lemma pass_ready:
  "last_pct \<noteq> 100 \<Longrightarrow> cmd_auto_pass env_bare (dev 1000 90) last_pct w0 =
     ((\<lparr>p_tc = 90, p_tg = 90, p_th = 90, p_target = 100, p_newduty = 100,
        p_write_results = Some (0, 0), p_r1 = 93, p_r2 = 93\<rparr>, 100),
      \<lparr>inb_count = 32,
       trace = [Outb 0x80 0x66, Outb 0x07 0x62, Opendir_hwmon, Access_nvidia_smi,
                Outb 0x80 0x66, Outb 0xCD 0x62,
                Outb 0x99 0x66, Outb 0x01 0x62, Outb (duty_raw_of_pct 100) 0x62,
                Outb 0x99 0x66, Outb 0x02 0x62, Outb (duty_raw_of_pct 100) 0x62,
                Outb 0x80 0x66, Outb 0xD0 0x62, Outb 0x80 0x66, Outb 0xD1 0x62,
                Outb 0x80 0x66, Outb 0xD2 0x62, Outb 0x80 0x66, Outb 0xD3 0x62]\<rparr>)"
  by (simp add: cmd_auto_pass_def Let_def cpu_temp_ec_def gpu_temp_def gpu_temp_sysfs_def
      gpu_temp_nvidia_smi_def env_bare_def fan1_duty_write_def fan2_duty_write_def
      fan1_rpm_read_def fan2_rpm_read_def dev_read_ready dev_do_ready emit_def w0_def
      target_duty_from_temp_hot_def clamp_def rpm_from_raw_def c_div_def)

text \<open>
  The events that a pass adds while it reads the temperatures, the world of a pass in
  terms of its steps, and the port reads of a register write.
\<close>

lemma gpu_temp_trace:
  "trace (snd (gpu_temp env hw w)) =
     trace w @ Opendir_hwmon #
       (if 0 < fst (gpu_temp_sysfs env w) then []
        else (if nvidia_smi env = Smi_missing then [Access_nvidia_smi]
              else [Access_nvidia_smi, Popen_nvidia_smi])
             @ (if 0 < fst (gpu_temp_nvidia_smi env (emit Opendir_hwmon w)) then []
                else [Outb 0x80 0x66, Outb 0xCD 0x62]))"
proof -
  have s: "snd (gpu_temp_sysfs env w) = emit Opendir_hwmon w"
    by (subst gpu_temp_sysfs_world) simp
  show ?thesis
    by (simp add: gpu_temp_def case_prod_beta s gpu_temp_nvidia_smi_effect ec_io_read_trace
        emit_def)
qed

lemma after_sensing_trace:
  "\<exists>es. trace (after_sensing env hw w) = trace w @ es \<and> Outb 0x99 0x66 \<notin> set es"
proof -
  have c: "trace (snd (cpu_temp_ec hw w)) = trace w @ [Outb 0x80 0x66, Outb 0x07 0x62]"
    by (simp add: cpu_temp_ec_def case_prod_beta ec_io_read_trace)
  show ?thesis
    unfolding after_sensing_def gpu_temp_trace c by (intro exI conjI, simp) simp
qed

lemma cmd_auto_pass_world:
  "snd (cmd_auto_pass env hw last_pct w) =
     snd (fan2_rpm_read hw (snd (fan1_rpm_read hw
       (if p_newduty (fst (fst (cmd_auto_pass env hw last_pct w))) \<noteq> last_pct
        then snd (fan2_duty_write hw (p_newduty (fst (fst (cmd_auto_pass env hw last_pct w))))
               (snd (fan1_duty_write hw (p_newduty (fst (fst (cmd_auto_pass env hw last_pct w))))
                  (after_sensing env hw w))))
        else after_sensing env hw w))))"
  and cmd_auto_pass_results:
  "p_write_results (fst (fst (cmd_auto_pass env hw last_pct w))) =
     (if p_newduty (fst (fst (cmd_auto_pass env hw last_pct w))) \<noteq> last_pct
      then Some (fst (fan1_duty_write hw (p_newduty (fst (fst (cmd_auto_pass env hw last_pct w))))
                   (after_sensing env hw w)),
                 fst (fan2_duty_write hw (p_newduty (fst (fst (cmd_auto_pass env hw last_pct w))))
                   (snd (fan1_duty_write hw (p_newduty (fst (fst (cmd_auto_pass env hw last_pct w))))
                      (after_sensing env hw w)))))
      else None)"
  by (simp_all add: cmd_auto_pass_def case_prod_beta Let_def after_sensing_def)

lemma ec_io_wait_count: "inb_count w < inb_count (snd (ec_io_wait hw port flag val w))"
proof -
  have "inb_count w \<le> inb_count (snd (ec_io_wait_loop hw port flag val data i w))" for data i w
  proof (induction hw port flag val data i w rule: ec_io_wait_loop.induct)
    case (1 hw port flag val data i w)
    show ?case
      by (subst ec_io_wait_loop.simps) (use 1 in \<open>auto simp: Let_def inb_def\<close>)
  qed
  from this [of "snd (inb hw port w)"] show ?thesis
    by (simp add: ec_io_wait_def case_prod_beta inb_def less_eq_Suc_le)
qed

lemma ec_io_do_count: "inb_count w < inb_count (snd (ec_io_do hw cmd port v w))"
proof -
  have o: "inb_count (outb x p w') = inb_count w'" for x p w'
    by (simp add: outb_def emit_def)
  note c = ec_io_wait_count [of _ hw EC_SC IBF 0]
  have 1: "inb_count w < inb_count (snd (ec_io_wait hw EC_SC IBF 0 w))" by (rule c)
  have 2: "inb_count w < inb_count (snd (ec_io_wait hw EC_SC IBF 0 (outb x p w')))"
    if "inb_count w < inb_count w'" for x p w'
    using c [of "outb x p w'"] that by (simp add: o)
  show ?thesis
    by (auto simp: ec_io_do_def case_prod_beta Let_def intro!: 1 2)
qed

lemma pass_hold:
  "cmd_auto_pass env_bare (dev 0 90) 100 w0 =
     ((\<lparr>p_tc = 90, p_tg = 90, p_th = 90, p_target = 100, p_newduty = 100,
        p_write_results = None, p_r1 = 93, p_r2 = 93\<rparr>, 100),
      \<lparr>inb_count = 1824,
       trace = [Outb 0x80 0x66, Outb 0x07 0x62, Opendir_hwmon, Access_nvidia_smi,
                Outb 0x80 0x66, Outb 0xCD 0x62,
                Outb 0x80 0x66, Outb 0xD0 0x62, Outb 0x80 0x66, Outb 0xD1 0x62,
                Outb 0x80 0x66, Outb 0xD2 0x62, Outb 0x80 0x66, Outb 0xD3 0x62]\<rparr>)"
  by (simp add: cmd_auto_pass_def Let_def cpu_temp_ec_def gpu_temp_def gpu_temp_sysfs_def
      gpu_temp_nvidia_smi_def env_bare_def fan1_duty_write_def fan2_duty_write_def
      fan1_rpm_read_def fan2_rpm_read_def dev_read_stuck dev_do_stuck emit_def w0_def
      target_duty_from_temp_hot_def clamp_def rpm_from_raw_def c_div_def)

text \<open>
  Claim C2, amended. After every pass \<^verbatim>\<open>last\<close> equals the pass's new duty, whether or not
  the writes succeeded. When the new duty equals the previous \<^verbatim>\<open>last\<close> the pass attempts no
  write: from the world left by the two temperature reads it goes straight to the RPM
  reads, and none of the events it adds is the write command \<open>0x99\<close>; so a failed write is
  not repeated while the new duty stays the same. When the new duty differs, the world is
  threaded through the write to fan 1 and then the write to fan 2, each of which polls the
  status port at least once, and their two results are dropped. When both writes report
  success, both fans were sent the raw byte of the value now held in \<^verbatim>\<open>last\<close>, and these
  six bytes are all that the pass puts on the ports between the temperature reads and the
  RPM reads.
\<close>

theorem auto_last_is_newduty:
  "snd (fst (cmd_auto_pass env hw last_pct w)) = p_newduty (fst (fst (cmd_auto_pass env hw last_pct w)))
   \<and> (p_newduty (fst (fst (cmd_auto_pass env hw last_pct w))) = last_pct \<longrightarrow>
      p_write_results (fst (fst (cmd_auto_pass env hw last_pct w))) = None
      \<and> snd (cmd_auto_pass env hw last_pct w) = snd (fan2_rpm_read hw (snd (fan1_rpm_read hw (after_sensing env hw w))))
      \<and> trace (snd (cmd_auto_pass env hw last_pct w)) = trace (after_sensing env hw w) @ [Outb 0x80 0x66, Outb 0xD0 0x62, Outb 0x80 0x66, Outb 0xD1 0x62,
                Outb 0x80 0x66, Outb 0xD2 0x62, Outb 0x80 0x66, Outb 0xD3 0x62]
      \<and> Outb 0x99 0x66 \<notin> set (drop (length (trace w)) (trace (snd (cmd_auto_pass env hw last_pct w)))))
   \<and> (p_newduty (fst (fst (cmd_auto_pass env hw last_pct w))) \<noteq> last_pct \<longrightarrow>
      p_write_results (fst (fst (cmd_auto_pass env hw last_pct w))) = Some (fst (fan1_duty_write hw (snd (fst (cmd_auto_pass env hw last_pct w))) (after_sensing env hw w)), fst (fan2_duty_write hw (snd (fst (cmd_auto_pass env hw last_pct w))) (snd (fan1_duty_write hw (snd (fst (cmd_auto_pass env hw last_pct w))) (after_sensing env hw w)))))
      \<and> snd (cmd_auto_pass env hw last_pct w) = snd (fan2_rpm_read hw (snd (fan1_rpm_read hw (snd (fan2_duty_write hw (snd (fst (cmd_auto_pass env hw last_pct w))) (snd (fan1_duty_write hw (snd (fst (cmd_auto_pass env hw last_pct w))) (after_sensing env hw w))))))))
      \<and> inb_count (after_sensing env hw w) < inb_count (snd (fan1_duty_write hw (snd (fst (cmd_auto_pass env hw last_pct w))) (after_sensing env hw w)))
      \<and> inb_count (snd (fan1_duty_write hw (snd (fst (cmd_auto_pass env hw last_pct w))) (after_sensing env hw w))) < inb_count (snd (fan2_duty_write hw (snd (fst (cmd_auto_pass env hw last_pct w))) (snd (fan1_duty_write hw (snd (fst (cmd_auto_pass env hw last_pct w))) (after_sensing env hw w))))))
   \<and> (p_write_results (fst (fst (cmd_auto_pass env hw last_pct w))) = Some (0, 0) \<longrightarrow>
      trace (snd (cmd_auto_pass env hw last_pct w)) = trace (after_sensing env hw w) @ [Outb 0x99 0x66, Outb 0x01 0x62, Outb (duty_raw_of_pct (snd (fst (cmd_auto_pass env hw last_pct w)))) 0x62,
                Outb 0x99 0x66, Outb 0x02 0x62, Outb (duty_raw_of_pct (snd (fst (cmd_auto_pass env hw last_pct w)))) 0x62] @ [Outb 0x80 0x66, Outb 0xD0 0x62, Outb 0x80 0x66, Outb 0xD1 0x62,
                Outb 0x80 0x66, Outb 0xD2 0x62, Outb 0x80 0x66, Outb 0xD3 0x62])"
proof (intro conjI impI)
  show "snd (fst (cmd_auto_pass env hw last_pct w)) = p_newduty (fst (fst (cmd_auto_pass env hw last_pct w)))"
    by (rule cmd_auto_pass_last)
next
  assume h: "p_newduty (fst (fst (cmd_auto_pass env hw last_pct w))) = last_pct"
  show "p_write_results (fst (fst (cmd_auto_pass env hw last_pct w))) = None"
    using h by (simp add: cmd_auto_pass_results)
  show w: "snd (cmd_auto_pass env hw last_pct w) = snd (fan2_rpm_read hw (snd (fan1_rpm_read hw (after_sensing env hw w))))"
    using h by (simp add: cmd_auto_pass_world)
  show t: "trace (snd (cmd_auto_pass env hw last_pct w)) = trace (after_sensing env hw w) @ [Outb 0x80 0x66, Outb 0xD0 0x62, Outb 0x80 0x66, Outb 0xD1 0x62,
                Outb 0x80 0x66, Outb 0xD2 0x62, Outb 0x80 0x66, Outb 0xD3 0x62]"
    unfolding w by (simp add: rpm_read_trace)
  obtain es where es: "trace (after_sensing env hw w) = trace w @ es"
    "Outb 0x99 0x66 \<notin> set es"
    using after_sensing_trace by blast
  show "Outb 0x99 0x66 \<notin> set (drop (length (trace w)) (trace (snd (cmd_auto_pass env hw last_pct w))))"
    unfolding t es(1) using es(2) by simp
next
  assume h: "p_newduty (fst (fst (cmd_auto_pass env hw last_pct w))) \<noteq> last_pct"
  show "p_write_results (fst (fst (cmd_auto_pass env hw last_pct w))) = Some (fst (fan1_duty_write hw (snd (fst (cmd_auto_pass env hw last_pct w))) (after_sensing env hw w)), fst (fan2_duty_write hw (snd (fst (cmd_auto_pass env hw last_pct w))) (snd (fan1_duty_write hw (snd (fst (cmd_auto_pass env hw last_pct w))) (after_sensing env hw w)))))"
    using h by (simp add: cmd_auto_pass_results cmd_auto_pass_last)
  show "snd (cmd_auto_pass env hw last_pct w) = snd (fan2_rpm_read hw (snd (fan1_rpm_read hw (snd (fan2_duty_write hw (snd (fst (cmd_auto_pass env hw last_pct w))) (snd (fan1_duty_write hw (snd (fst (cmd_auto_pass env hw last_pct w))) (after_sensing env hw w))))))))"
    using h by (simp add: cmd_auto_pass_world cmd_auto_pass_last)
  show "inb_count (after_sensing env hw w) < inb_count (snd (fan1_duty_write hw (snd (fst (cmd_auto_pass env hw last_pct w))) (after_sensing env hw w)))"
    unfolding fan1_duty_write_def by (rule ec_io_do_count)
  show "inb_count (snd (fan1_duty_write hw (snd (fst (cmd_auto_pass env hw last_pct w))) (after_sensing env hw w))) < inb_count (snd (fan2_duty_write hw (snd (fst (cmd_auto_pass env hw last_pct w))) (snd (fan1_duty_write hw (snd (fst (cmd_auto_pass env hw last_pct w))) (after_sensing env hw w)))))"
    unfolding fan2_duty_write_def by (rule ec_io_do_count)
next
  assume ok: "p_write_results (fst (fst (cmd_auto_pass env hw last_pct w))) = Some (0, 0)"
  have ne: "p_newduty (fst (fst (cmd_auto_pass env hw last_pct w))) \<noteq> last_pct"
    using ok by (auto simp: cmd_auto_pass_results split: if_splits)
  have res: "p_write_results (fst (fst (cmd_auto_pass env hw last_pct w))) = Some (fst (fan1_duty_write hw (snd (fst (cmd_auto_pass env hw last_pct w))) (after_sensing env hw w)), fst (fan2_duty_write hw (snd (fst (cmd_auto_pass env hw last_pct w))) (snd (fan1_duty_write hw (snd (fst (cmd_auto_pass env hw last_pct w))) (after_sensing env hw w)))))"
    using ne by (simp add: cmd_auto_pass_results cmd_auto_pass_last)
  have w: "snd (cmd_auto_pass env hw last_pct w) = snd (fan2_rpm_read hw (snd (fan1_rpm_read hw (snd (fan2_duty_write hw (snd (fst (cmd_auto_pass env hw last_pct w))) (snd (fan1_duty_write hw (snd (fst (cmd_auto_pass env hw last_pct w))) (after_sensing env hw w))))))))"
    using ne by (simp add: cmd_auto_pass_world cmd_auto_pass_last)
  have "trace (snd (fan2_duty_write hw (snd (fst (cmd_auto_pass env hw last_pct w))) (snd (fan1_duty_write hw (snd (fst (cmd_auto_pass env hw last_pct w))) (after_sensing env hw w))))) = trace (after_sensing env hw w) @ [Outb 0x99 0x66, Outb 0x01 0x62, Outb (duty_raw_of_pct (snd (fst (cmd_auto_pass env hw last_pct w)))) 0x62,
                Outb 0x99 0x66, Outb 0x02 0x62, Outb (duty_raw_of_pct (snd (fst (cmd_auto_pass env hw last_pct w)))) 0x62]"
    using ok res by (intro fan_writes_ok_trace) simp_all
  then show "trace (snd (cmd_auto_pass env hw last_pct w)) = trace (after_sensing env hw w) @ [Outb 0x99 0x66, Outb 0x01 0x62, Outb (duty_raw_of_pct (snd (fst (cmd_auto_pass env hw last_pct w)))) 0x62,
                Outb 0x99 0x66, Outb 0x02 0x62, Outb (duty_raw_of_pct (snd (fst (cmd_auto_pass env hw last_pct w)))) 0x62] @ [Outb 0x80 0x66, Outb 0xD0 0x62, Outb 0x80 0x66, Outb 0xD1 0x62,
                Outb 0x80 0x66, Outb 0xD2 0x62, Outb 0x80 0x66, Outb 0xD3 0x62]"
    unfolding w by (simp add: rpm_read_trace)
qed

theorem auto_last_is_newduty_witness:
  "p_newduty (fst (fst (cmd_auto_pass env_bare (dev 0 90) 100 w0))) = 100
   \<and> p_write_results (fst (fst (cmd_auto_pass env_bare (dev 0 90) 100 w0))) = None
   \<and> trace (snd (cmd_auto_pass env_bare (dev 0 90) 100 w0)) = trace (after_sensing env_bare (dev 0 90) w0) @ [Outb 0x80 0x66, Outb 0xD0 0x62, Outb 0x80 0x66, Outb 0xD1 0x62,
                Outb 0x80 0x66, Outb 0xD2 0x62, Outb 0x80 0x66, Outb 0xD3 0x62]
   \<and> Outb 0x99 0x66 \<notin> set (drop (length (trace w0)) (trace (snd (cmd_auto_pass env_bare (dev 0 90) 100 w0))))
   \<and> p_newduty (fst (fst (cmd_auto_pass env_bare (dev 0 90) 35 w0))) \<noteq> 35
   \<and> p_write_results (fst (fst (cmd_auto_pass env_bare (dev 0 90) 35 w0))) = Some (fst (fan1_duty_write (dev 0 90) (snd (fst (cmd_auto_pass env_bare (dev 0 90) 35 w0))) (after_sensing env_bare (dev 0 90) w0)), fst (fan2_duty_write (dev 0 90) (snd (fst (cmd_auto_pass env_bare (dev 0 90) 35 w0))) (snd (fan1_duty_write (dev 0 90) (snd (fst (cmd_auto_pass env_bare (dev 0 90) 35 w0))) (after_sensing env_bare (dev 0 90) w0)))))
   \<and> inb_count (after_sensing env_bare (dev 0 90) w0) < inb_count (snd (fan1_duty_write (dev 0 90) (snd (fst (cmd_auto_pass env_bare (dev 0 90) 35 w0))) (after_sensing env_bare (dev 0 90) w0)))
   \<and> inb_count (snd (fan1_duty_write (dev 0 90) (snd (fst (cmd_auto_pass env_bare (dev 0 90) 35 w0))) (after_sensing env_bare (dev 0 90) w0))) < inb_count (snd (fan2_duty_write (dev 0 90) (snd (fst (cmd_auto_pass env_bare (dev 0 90) 35 w0))) (snd (fan1_duty_write (dev 0 90) (snd (fst (cmd_auto_pass env_bare (dev 0 90) 35 w0))) (after_sensing env_bare (dev 0 90) w0)))))
   \<and> p_write_results (fst (fst (cmd_auto_pass env_bare (dev 1000 90) 35 w0))) = Some (0, 0)
   \<and> trace (snd (cmd_auto_pass env_bare (dev 1000 90) 35 w0)) = trace (after_sensing env_bare (dev 1000 90) w0) @ [Outb 0x99 0x66, Outb 0x01 0x62, Outb (duty_raw_of_pct (snd (fst (cmd_auto_pass env_bare (dev 1000 90) 35 w0)))) 0x62,
                Outb 0x99 0x66, Outb 0x02 0x62, Outb (duty_raw_of_pct (snd (fst (cmd_auto_pass env_bare (dev 1000 90) 35 w0)))) 0x62] @ [Outb 0x80 0x66, Outb 0xD0 0x62, Outb 0x80 0x66, Outb 0xD1 0x62,
                Outb 0x80 0x66, Outb 0xD2 0x62, Outb 0x80 0x66, Outb 0xD3 0x62]"
proof -
  note ta = auto_last_is_newduty [where env = env_bare and hw = "dev 0 90" and last_pct = 100 and w = w0]
  note tb = auto_last_is_newduty [where env = env_bare and hw = "dev 0 90" and last_pct = 35 and w = w0]
  note tc = auto_last_is_newduty [where env = env_bare and hw = "dev 1000 90" and last_pct = 35 and w = w0]
  have ha: "p_newduty (fst (fst (cmd_auto_pass env_bare (dev 0 90) 100 w0))) = 100"
    by (simp add: pass_hold)
  have hb: "p_newduty (fst (fst (cmd_auto_pass env_bare (dev 0 90) 35 w0))) \<noteq> 35"
    by (simp add: pass_stuck)
  have hc: "p_write_results (fst (fst (cmd_auto_pass env_bare (dev 1000 90) 35 w0))) = Some (0, 0)"
    by (simp add: pass_ready)
  from ta ha have a1: "p_write_results (fst (fst (cmd_auto_pass env_bare (dev 0 90) 100 w0))) = None"
    and a2: "trace (snd (cmd_auto_pass env_bare (dev 0 90) 100 w0)) = trace (after_sensing env_bare (dev 0 90) w0) @ [Outb 0x80 0x66, Outb 0xD0 0x62, Outb 0x80 0x66, Outb 0xD1 0x62,
                Outb 0x80 0x66, Outb 0xD2 0x62, Outb 0x80 0x66, Outb 0xD3 0x62]"
    and a3: "Outb 0x99 0x66 \<notin> set (drop (length (trace w0)) (trace (snd (cmd_auto_pass env_bare (dev 0 90) 100 w0))))"
    by blast+
  from tb hb have b1: "p_write_results (fst (fst (cmd_auto_pass env_bare (dev 0 90) 35 w0))) = Some (fst (fan1_duty_write (dev 0 90) (snd (fst (cmd_auto_pass env_bare (dev 0 90) 35 w0))) (after_sensing env_bare (dev 0 90) w0)), fst (fan2_duty_write (dev 0 90) (snd (fst (cmd_auto_pass env_bare (dev 0 90) 35 w0))) (snd (fan1_duty_write (dev 0 90) (snd (fst (cmd_auto_pass env_bare (dev 0 90) 35 w0))) (after_sensing env_bare (dev 0 90) w0)))))"
    and b2: "inb_count (after_sensing env_bare (dev 0 90) w0) < inb_count (snd (fan1_duty_write (dev 0 90) (snd (fst (cmd_auto_pass env_bare (dev 0 90) 35 w0))) (after_sensing env_bare (dev 0 90) w0)))"
    and b3: "inb_count (snd (fan1_duty_write (dev 0 90) (snd (fst (cmd_auto_pass env_bare (dev 0 90) 35 w0))) (after_sensing env_bare (dev 0 90) w0))) < inb_count (snd (fan2_duty_write (dev 0 90) (snd (fst (cmd_auto_pass env_bare (dev 0 90) 35 w0))) (snd (fan1_duty_write (dev 0 90) (snd (fst (cmd_auto_pass env_bare (dev 0 90) 35 w0))) (after_sensing env_bare (dev 0 90) w0)))))"
    by blast+
  from tc hc have c1: "trace (snd (cmd_auto_pass env_bare (dev 1000 90) 35 w0)) = trace (after_sensing env_bare (dev 1000 90) w0) @ [Outb 0x99 0x66, Outb 0x01 0x62, Outb (duty_raw_of_pct (snd (fst (cmd_auto_pass env_bare (dev 1000 90) 35 w0)))) 0x62,
                Outb 0x99 0x66, Outb 0x02 0x62, Outb (duty_raw_of_pct (snd (fst (cmd_auto_pass env_bare (dev 1000 90) 35 w0)))) 0x62] @ [Outb 0x80 0x66, Outb 0xD0 0x62, Outb 0x80 0x66, Outb 0xD1 0x62,
                Outb 0x80 0x66, Outb 0xD2 0x62, Outb 0x80 0x66, Outb 0xD3 0x62]"
    by blast
  show ?thesis
    by (intro conjI) (rule ha hb hc a1 a2 a3 b1 b2 b3 c1)+
qed

end
